theory Spec2Isabelle
  imports Complex_Main "HOL-Library.AList" "HOL-Library.Log_Nat"
begin

section \<open>JavaScript values\<close>

text \<open>
  The ledger backend is TypeScript; its types are erased when it runs, and the values that
  flow through it (sheet cells typed \<open>any\<close>, the request body typed \<open>any\<close>) are
  JavaScript values. A number is an IEEE double: \<open>NaN\<close>, the two infinities, or a finite
  value, which the model holds as the rational that the double denotes. Reading a literal
  and adding give the double nearest to the exact result (\<open>roundToDouble\<close> below). The
  zero of the model stands for both signed zeros, which \<open>===\<close> and \<open>||\<close> do not
  tell apart. A string is a list of characters with codes below 256.
\<close>

datatype jsnum = NaN | PosInf | NegInf | Fin rat

datatype jsval =
    JUndefined
  | JNull
  | JBool bool
  | JNum jsnum
  | JStr string
  | JArr "jsval list"
  | JObj "(string \<times> jsval) list"

text \<open>
  An object is the list of its own properties in the order in which JavaScript enumerates
  them and \<open>JSON.stringify\<close> writes them. The prototype of an object is not part of the
  model. The objects here are made by object literals and by \<open>JSON.parse\<close>, with the
  prototype \<open>Object.prototype\<close>, and the only prototype that can change is that of a
  transaction that an update has located (see \<open>Object_assign\<close> below). The code reads
  from a transaction only the eleven properties of the interface \<open>Transaction\<close>:
  \<open>Object.prototype\<close> has none of them, and a located transaction has all of them as
  own properties, so every read is decided by the own properties.
\<close>

type_synonym jsobj = "(string \<times> jsval) list"

text \<open>
  Reading an own property: \<open>ob.k\<close> is \<open>undefined\<close> when the object has no such
  property.
\<close>

definition field :: "jsobj \<Rightarrow> string \<Rightarrow> jsval" where
  "field ob k = (case map_of ob k of None \<Rightarrow> JUndefined | Some v \<Rightarrow> v)"

subsection \<open>Doubles\<close>

text \<open>Two to an integer power.\<close>

definition pow2 :: "int \<Rightarrow> rat" where
  "pow2 e = (if 0 \<le> e then 2 ^ nat e else 1 / 2 ^ nat (- e))"

text \<open>
  The binary exponent of a positive rational \<open>a\<close>, that is the \<open>e\<close> with
  \<open>2^e \<le> a < 2^(e+1)\<close>: the difference of the bit lengths of numerator and
  denominator, or one less.
\<close>

definition binaryExponent :: "rat \<Rightarrow> int" where
  "binaryExponent a =
     (let (p, r) = quotient_of a; e = bitlen p - bitlen r
      in if pow2 e \<le> a then e else e - 1)"

text \<open>The nearest integer, the even one of two that are equally near.\<close>

definition roundHalfEven :: "rat \<Rightarrow> int" where
  "roundHalfEven x =
     (let n = \<lfloor>x\<rfloor>; d = x - of_int n
      in if d < 1 / 2 then n else if 1 / 2 < d then n + 1 else if even n then n else n + 1)"

text \<open>
  The double nearest to a rational: a significand of 53 bits at the exponent of the number,
  and at least at the smallest exponent -1022 (below it the doubles are the multiples of
  \<open>2^-1074\<close>, and what is nearest to 0 becomes 0); a result of \<open>2^1024\<close> or more is
  an infinity.
\<close>

definition roundToDouble :: "rat \<Rightarrow> jsnum" where
  "roundToDouble q =
     (if q = 0 then Fin 0
      else
        let a = \<bar>q\<bar>;
            e = max (binaryExponent a) (- 1022);
            u = pow2 (e - 52);
            m = roundHalfEven (a / u)
        in if 1023 < e \<or> (e = 1023 \<and> 2 ^ 53 \<le> m) then (if q < 0 then NegInf else PosInf)
           else Fin (sgn q * (of_int m * u)))"

subsection \<open>Truthiness, comparison and arithmetic\<close>

definition numTruthy :: "jsnum \<Rightarrow> bool" where
  "numTruthy x = (case x of NaN \<Rightarrow> False | Fin q \<Rightarrow> q \<noteq> 0 | _ \<Rightarrow> True)"

fun truthy :: "jsval \<Rightarrow> bool" where
  "truthy JUndefined = False"
| "truthy JNull = False"
| "truthy (JBool b) = b"
| "truthy (JNum x) = numTruthy x"
| "truthy (JStr s) = (s \<noteq> [])"
| "truthy (JArr vs) = True"
| "truthy (JObj ps) = True"

text \<open>\<open>a || b\<close>\<close>

definition or_else :: "jsval \<Rightarrow> jsval \<Rightarrow> jsval" where
  "or_else a b = (if truthy a then a else b)"

definition num_or :: "jsnum \<Rightarrow> jsnum \<Rightarrow> jsnum" where
  "num_or a b = (if numTruthy a then a else b)"

text \<open>\<open>v === x\<close> for a number \<open>x\<close>: only an equal number that is not \<open>NaN\<close>.\<close>

definition strict_equals_number :: "jsval \<Rightarrow> jsnum \<Rightarrow> bool" where
  "strict_equals_number v x =
     (case v of JNum a \<Rightarrow> (if a = NaN then False else a = x) | _ \<Rightarrow> False)"

text \<open>\<open>a < b\<close> on numbers; false when either is \<open>NaN\<close>.\<close>

fun num_less :: "jsnum \<Rightarrow> jsnum \<Rightarrow> bool" where
  "num_less NaN y = False"
| "num_less x NaN = False"
| "num_less PosInf y = False"
| "num_less x NegInf = False"
| "num_less NegInf y = True"
| "num_less x PosInf = True"
| "num_less (Fin a) (Fin b) = (a < b)"

text \<open>
  \<open>Math.max\<close>: \<open>-Infinity\<close> without arguments, \<open>NaN\<close> as soon as one argument is
  \<open>NaN\<close>, the largest argument otherwise.
\<close>

definition max2 :: "jsnum \<Rightarrow> jsnum \<Rightarrow> jsnum" where
  "max2 a b = (if a = NaN then NaN else if b = NaN then NaN else if num_less a b then b else a)"

definition Math_max :: "jsnum list \<Rightarrow> jsnum" where
  "Math_max xs = foldl max2 NegInf xs"

text \<open>\<open>a + b\<close> on numbers: the double nearest to the sum.\<close>

fun js_add :: "jsnum \<Rightarrow> jsnum \<Rightarrow> jsnum" where
  "js_add NaN y = NaN"
| "js_add x NaN = NaN"
| "js_add PosInf NegInf = NaN"
| "js_add NegInf PosInf = NaN"
| "js_add PosInf y = PosInf"
| "js_add x PosInf = PosInf"
| "js_add NegInf y = NegInf"
| "js_add x NegInf = NegInf"
| "js_add (Fin a) (Fin b) = roundToDouble (a + b)"

subsection \<open>Reading numbers from strings\<close>

text \<open>
  The white space that \<open>parseInt\<close>, \<open>parseFloat\<close> and \<open>Number\<close> skip: tab, line feed,
  vertical tab, form feed, carriage return, space and the no-break space.
\<close>

definition isWhiteSpace :: "char \<Rightarrow> bool" where
  "isWhiteSpace c = (c \<in> set [CHR 0x09, CHR 0x0A, CHR 0x0B, CHR 0x0C, CHR 0x0D, CHR 0x20, CHR 0xA0])"

definition digitValue :: "char \<Rightarrow> int option" where
  "digitValue c =
     (let n = (of_char c :: int) in
      if 48 \<le> n \<and> n \<le> 57 then Some (n - 48)
      else if 97 \<le> n \<and> n \<le> 122 then Some (n - 87)
      else if 65 \<le> n \<and> n \<le> 90 then Some (n - 55)
      else None)"

definition isDigit :: "int \<Rightarrow> char \<Rightarrow> bool" where
  "isDigit radix c = (case digitValue c of None \<Rightarrow> False | Some d \<Rightarrow> d < radix)"

definition digitsValue :: "int \<Rightarrow> string \<Rightarrow> int" where
  "digitsValue radix ds = foldl (\<lambda>acc c. acc * radix + (case digitValue c of None \<Rightarrow> 0 | Some d \<Rightarrow> d)) 0 ds"

text \<open>An optional sign in front: whether it is a minus, and the rest.\<close>

definition splitSign :: "string \<Rightarrow> bool \<times> string" where
  "splitSign s =
     (case s of
        [] \<Rightarrow> (False, [])
      | c # r \<Rightarrow> if c = CHR ''-'' then (True, r) else if c = CHR ''+'' then (False, r) else (False, s))"

text \<open>
  \<open>parseInt(s)\<close> without a radix: skip leading white space, read a sign, read \<open>0x\<close> or
  \<open>0X\<close> as the mark of radix 16, then read digits as long as there are some; \<open>NaN\<close> when
  there is none, and else the double nearest to the integer that the digits write.
\<close>

definition parseInt_string :: "string \<Rightarrow> jsnum" where
  "parseInt_string s =
     (let (neg, s2) = splitSign (dropWhile isWhiteSpace s);
          hex = (take 2 s2 = ''0x'' \<or> take 2 s2 = ''0X'');
          radix = (if hex then 16 else 10);
          z = takeWhile (isDigit radix) (if hex then drop 2 s2 else s2)
      in if z = [] then NaN
         else roundToDouble (of_int ((if neg then - 1 else 1) * digitsValue radix z)))"

text \<open>Ten to an integer power, times \<open>m\<close>.\<close>

definition scale10 :: "rat \<Rightarrow> int \<Rightarrow> rat" where
  "scale10 m e = (if 0 \<le> e then m * 10 ^ nat e else m / 10 ^ nat (- e))"

text \<open>
  An exponent part \<open>e\<close>, \<open>e+\<close> or \<open>e-\<close> followed by digits: its value and the rest; the
  exponent is only read when it has a digit.
\<close>

definition exponentPart :: "string \<Rightarrow> int \<times> string" where
  "exponentPart s =
     (case s of
        [] \<Rightarrow> (0, s)
      | c # r \<Rightarrow>
          if c = CHR ''e'' \<or> c = CHR ''E'' then
            (let (neg, r2) = splitSign r; ds = takeWhile (isDigit 10) r2
             in if ds = [] then (0, s)
                else ((if neg then - 1 else 1) * digitsValue 10 ds, dropWhile (isDigit 10) r2))
          else (0, s))"

text \<open>
  The longest prefix that is a decimal literal (\<open>StrDecimalLiteral\<close>): a sign, then
  \<open>Infinity\<close> or digits with an optional fraction and exponent. The result is the number
  read, which is the double nearest to the value of the literal, and the rest of the string,
  or \<open>None\<close> when no prefix is a literal.
\<close>

definition decimalPrefix :: "string \<Rightarrow> (jsnum \<times> string) option" where
  "decimalPrefix s =
     (let (neg, s2) = splitSign s in
      if take 8 s2 = ''Infinity'' then Some (if neg then NegInf else PosInf, drop 8 s2)
      else
        let ip = takeWhile (isDigit 10) s2;
            r1 = dropWhile (isDigit 10) s2;
            (fp, r2) = (case r1 of
                          [] \<Rightarrow> ([], r1)
                        | c # r \<Rightarrow> if c = CHR ''.'' \<and> (ip \<noteq> [] \<or> takeWhile (isDigit 10) r \<noteq> [])
                                   then (takeWhile (isDigit 10) r, dropWhile (isDigit 10) r)
                                   else ([], r1))
        in if ip = [] \<and> fp = [] then None
           else
             let (e, r3) = exponentPart r2;
                 m = rat_of_int (digitsValue 10 (ip @ fp))
             in Some (roundToDouble (scale10 (if neg then - m else m) (e - int (length fp))), r3))"

text \<open>\<open>parseFloat(s)\<close>: skip leading white space and read the longest decimal literal.\<close>

definition parseFloat_string :: "string \<Rightarrow> jsnum" where
  "parseFloat_string s =
     (case decimalPrefix (dropWhile isWhiteSpace s) of None \<Rightarrow> NaN | Some (x, r) \<Rightarrow> x)"

text \<open>
  \<open>Number(s)\<close>: white space is trimmed at both ends; the empty string is 0; the whole rest
  must be one literal, decimal or \<open>0x\<close>, \<open>0o\<close>, \<open>0b\<close> (without a sign), else \<open>NaN\<close>.
\<close>

definition trim :: "string \<Rightarrow> string" where
  "trim s = rev (dropWhile isWhiteSpace (rev (dropWhile isWhiteSpace s)))"

definition nonDecimalRadix :: "string \<Rightarrow> int option" where
  "nonDecimalRadix s =
     (if take 2 s = ''0x'' \<or> take 2 s = ''0X'' then Some 16
      else if take 2 s = ''0o'' \<or> take 2 s = ''0O'' then Some 8
      else if take 2 s = ''0b'' \<or> take 2 s = ''0B'' then Some 2
      else None)"

definition StringToNumber :: "string \<Rightarrow> jsnum" where
  "StringToNumber s =
     (let t = trim s in
      if t = [] then Fin 0
      else case nonDecimalRadix t of
        Some radix \<Rightarrow>
          (let ds = drop 2 t in
           if ds \<noteq> [] \<and> list_all (isDigit radix) ds
           then roundToDouble (rat_of_int (digitsValue radix ds))
           else NaN)
      | None \<Rightarrow>
          (case decimalPrefix t of
             None \<Rightarrow> NaN
           | Some (x, r) \<Rightarrow> if r = [] then x else NaN))"

subsection \<open>Reading numbers from values\<close>

text \<open>
  \<open>parseInt\<close> and \<open>parseFloat\<close> first turn their argument into a string, so
  \<open>parseInt(String(v))\<close> is \<open>parseInt(v)\<close>. For a number the string is the shortest
  decimal that reads back as the same double, written plainly when it is at least
  \<open>1e-6\<close> and below \<open>1e21\<close> in magnitude, and as \<open>d.ddde\<plusminus>n\<close> otherwise. Read
  back by \<open>parseFloat\<close> it gives the number again; read back by \<open>parseInt\<close> it gives
  the integer part in the plain form and the first digit in the other.
\<close>

function leadingDigit :: "int \<Rightarrow> int" where
  "leadingDigit n = (if n < 10 then n else leadingDigit (n div 10))"
  by pat_completeness auto
termination
  by (relation "measure nat") auto

function digitCount :: "int \<Rightarrow> nat" where
  "digitCount n = (if n < 10 then 1 else Suc (digitCount (n div 10)))"
  by pat_completeness auto
termination
  by (relation "measure nat") auto

text \<open>
  The decimal exponent of a positive rational \<open>a\<close>, that is the \<open>e\<close> with
  \<open>10^e \<le> a < 10^(e+1)\<close>: the difference of the numbers of digits of numerator and
  denominator, or one less.
\<close>

definition decimalExponent :: "rat \<Rightarrow> int" where
  "decimalExponent a =
     (let (p, r) = quotient_of a; e = int (digitCount p) - int (digitCount r)
      in if scale10 1 e \<le> a then e else e - 1)"

text \<open>
  The first digit of the shortest decimal that reads back as the positive double \<open>a\<close>.
  The decimals that read back as \<open>a\<close> lie around \<open>a\<close>: they start with the first digit
  \<open>d\<close> of \<open>a\<close> itself, unless the next decimal of one digit, \<open>(d + 1) * 10^e\<close>,
  reads back as \<open>a\<close>; then this is the shortest one.
\<close>

definition significantDigit :: "rat \<Rightarrow> int" where
  "significantDigit a =
     (let e = decimalExponent a;
          d = leadingDigit \<lfloor>scale10 a (- e)\<rfloor>
      in if roundToDouble (scale10 (of_int (d + 1)) e) = Fin a then leadingDigit (d + 1) else d)"

text \<open>
  Whether the shortest decimal of the positive double \<open>a\<close> is at least \<open>1e-6\<close> and
  below \<open>1e21\<close>. \<open>1e21\<close> is a double; \<open>1e-6\<close> is not, and the double that it reads
  as is printed as \<open>0.000001\<close>.
\<close>

definition plainNotation :: "rat \<Rightarrow> bool" where
  "plainNotation a = ((1 / 1000000 \<le> a \<or> roundToDouble (1 / 1000000) = Fin a) \<and> a < 10 ^ 21)"

definition parseInt_number :: "jsnum \<Rightarrow> jsnum" where
  "parseInt_number x =
     (case x of
        Fin q \<Rightarrow>
          if q = 0 then Fin 0
          else if plainNotation \<bar>q\<bar> then Fin (sgn q * of_int \<lfloor>\<bar>q\<bar>\<rfloor>)
          else Fin (sgn q * of_int (significantDigit \<bar>q\<bar>))
      | _ \<Rightarrow> NaN)"

text \<open>
  An array turns into the strings of its elements joined by commas, and a comma ends every
  literal: \<open>parseInt\<close> and \<open>parseFloat\<close> of an array read its first element. \<open>null\<close>,
  \<open>undefined\<close>, booleans and objects turn into words without a digit.
\<close>

fun parseInt_js :: "jsval \<Rightarrow> jsnum" where
  "parseInt_js (JStr s) = parseInt_string s"
| "parseInt_js (JNum x) = parseInt_number x"
| "parseInt_js (JArr (v # vs)) = parseInt_js v"
| "parseInt_js v = NaN"

fun parseFloat_js :: "jsval \<Rightarrow> jsnum" where
  "parseFloat_js (JStr s) = parseFloat_string s"
| "parseFloat_js (JNum x) = x"
| "parseFloat_js (JArr (v # vs)) = parseFloat_js v"
| "parseFloat_js v = NaN"

text \<open>
  \<open>Number(v)\<close>: \<open>undefined\<close> is \<open>NaN\<close>, \<open>null\<close> is 0, \<open>true\<close> is 1; a string is
  read as a whole; an array is read through its string, which is empty for the empty array
  and has a comma as soon as there are two elements; any other object is read through the
  string \<open>[object Object]\<close> and is \<open>NaN\<close>.
\<close>

fun ToNumber :: "jsval \<Rightarrow> jsnum" where
  "ToNumber JUndefined = NaN"
| "ToNumber JNull = Fin 0"
| "ToNumber (JBool b) = (if b then Fin 1 else Fin 0)"
| "ToNumber (JNum x) = x"
| "ToNumber (JStr s) = StringToNumber s"
| "ToNumber (JArr []) = Fin 0"
| "ToNumber (JArr [JUndefined]) = Fin 0"
| "ToNumber (JArr [JNull]) = Fin 0"
| "ToNumber (JArr [JBool b]) = NaN"
| "ToNumber (JArr [JObj ps]) = NaN"
| "ToNumber (JArr [v]) = ToNumber v"
| "ToNumber (JArr (v # w # vs)) = NaN"
| "ToNumber (JObj ps) = NaN"

subsection \<open>Writing properties\<close>

text \<open>
  A property key is an array index when it is the decimal form, without a leading zero, of
  an integer from 0 to \<open>2^32 - 2\<close>. The own properties of an object are enumerated with
  the array indices first, in ascending order, and the other keys after them in the order
  in which they were created.
\<close>

definition arrayIndex :: "string \<Rightarrow> int option" where
  "arrayIndex k =
     (if k \<noteq> [] \<and> list_all (isDigit 10) k \<and> (k = ''0'' \<or> hd k \<noteq> CHR ''0'')
         \<and> digitsValue 10 k < 4294967295
      then Some (digitsValue 10 k) else None)"

fun insertIndexed :: "int \<Rightarrow> string \<Rightarrow> jsval \<Rightarrow> jsobj \<Rightarrow> jsobj" where
  "insertIndexed i k v [] = [(k, v)]"
| "insertIndexed i k v ((k', v') # ob) =
     (case arrayIndex k' of
        None \<Rightarrow> (k, v) # (k', v') # ob
      | Some j \<Rightarrow> if j < i then (k', v') # insertIndexed i k v ob else (k, v) # (k', v') # ob)"

text \<open>
  Creating or overwriting an own data property: a property the object has keeps its place
  and takes the new value; a new one takes its place in the enumeration order.
\<close>

definition defineOwnProperty :: "jsobj \<Rightarrow> string \<Rightarrow> jsval \<Rightarrow> jsobj" where
  "defineOwnProperty ob k v =
     (if k \<in> fst ` set ob then AList.update k v ob
      else case arrayIndex k of None \<Rightarrow> ob @ [(k, v)] | Some i \<Rightarrow> insertIndexed i k v ob)"

text \<open>
  The properties of an object literal, the spread \<open>...source\<close> among them, are defined
  one after the other as own properties, whatever their key.
\<close>

definition defineProperties :: "jsobj \<Rightarrow> jsobj \<Rightarrow> jsobj" where
  "defineProperties ob ps = fold (\<lambda>(k, v) ob. defineOwnProperty ob k v) ps ob"

text \<open>
  \<open>Object.assign(target, source)\<close> assigns every own property of the source to the
  target, as \<open>target[k] = v\<close> does. On an object whose prototype chain has no setter
  for the key this creates or overwrites the own property. \<open>Object.prototype\<close> has one
  setter, for the key \<open>__proto__\<close>: unless the target has an own property of this name,
  the assignment reaches the setter, which changes the prototype when the value is an object
  or \<open>null\<close> and does nothing otherwise, and the target gets no own property.
\<close>

definition Object_assign :: "jsobj \<Rightarrow> jsobj \<Rightarrow> jsobj" where
  "Object_assign target source =
     fold (\<lambda>(k, v) ob. if k = ''__proto__'' \<and> k \<notin> fst ` set ob then ob
                        else defineOwnProperty ob k v) source target"

subsection \<open>Conversions that throw\<close>

text \<open>
  \<open>Number(v)\<close> of an object first asks the object for a primitive value: it calls
  \<open>valueOf\<close> and then \<open>toString\<close>, each only when it is a function, and throws a
  \<open>TypeError\<close> when neither returns a primitive. The objects here come from
  \<open>JSON.parse\<close>: no own property of theirs is a function, the \<open>valueOf\<close> of
  \<open>Object.prototype\<close> returns the object itself, and the \<open>toString\<close> of
  \<open>Object.prototype\<close> returns a string unless an own property \<open>toString\<close> hides it.
  The \<open>toString\<close> of an array joins the strings of its elements other than
  \<open>undefined\<close> and \<open>null\<close>, and throws when the conversion of an element does. The
  value that \<open>ToNumber\<close> gives above for an object or an array is the result of the
  conversion when it does not throw.
\<close>

fun ToPrimitive_throws :: "jsval \<Rightarrow> bool" where
  "ToPrimitive_throws (JObj ps) = (''toString'' \<in> fst ` set ps)"
| "ToPrimitive_throws (JArr vs) = (\<exists>v \<in> set vs. ToPrimitive_throws v)"
| "ToPrimitive_throws v = False"

section \<open>The row codec (lib/googleSheets.ts)\<close>


definition cell :: "jsval list \<Rightarrow> nat \<Rightarrow> jsval" where
  "cell row k = (if k < length row then row ! k else JUndefined)"

text \<open>
  The clock: what \<open>new Date().toISOString()\<close> and \<open>Date.now()\<close> return while one
  function runs. A time value is an integer of at most \<open>8.64e15\<close> in magnitude and the
  position of a row in an array is below \<open>2^32\<close>: both are doubles as they are, and so
  is the position plus one.
\<close>

record clock =
  nowIso :: string
  nowMs :: int

definition Date_now :: "clock \<Rightarrow> jsnum" where
  "Date_now clk = Fin (of_int (nowMs clk))"

definition rowToTransaction :: "jsval list \<Rightarrow> nat \<Rightarrow> clock \<Rightarrow> jsobj" where
  "rowToTransaction row index clk =
     (let id =
        (if cell row 0 = JUndefined \<or> cell row 0 = JNull \<or> cell row 0 = JStr [] then
           Fin (of_nat index + 1)
         else
           (let parsedId = parseInt_js (cell row 0)
            in if parsedId = NaN then Fin (of_nat index + 1) else parsedId))
      in [(''id'', JNum id),
          (''date'', or_else (cell row 1) (JStr [])),
          (''type'', or_else (cell row 2) (JStr [])),
          (''partner'', or_else (cell row 3) (JStr [])),
          (''description'', or_else (cell row 4) (JStr [])),
          (''amount'', JNum (num_or (parseFloat_js (cell row 5)) (Fin 0))),
          (''deleted'', JBool (cell row 6 = JStr ''TRUE'' \<or> cell row 6 = JBool True)),
          (''createdAt'', or_else (cell row 7) (JStr (nowIso clk))),
          (''updatedAt'', or_else (cell row 8) (JStr (nowIso clk))),
          (''createdTimestamp'', JNum (num_or (parseInt_js (cell row 9)) (Date_now clk))),
          (''updatedTimestamp'', JNum (num_or (parseInt_js (cell row 10)) (Date_now clk)))])"

text \<open>
  \<open>transactionToRow\<close> converts the identifier with \<open>Number\<close>, the only conversion it
  makes (the message about an invalid identifier is written for \<open>NaN\<close>, after the
  conversion has returned): it throws when this conversion does, and the row below is what
  it returns when it returns. \<open>rowToTransaction\<close> converts cells to strings; the cells
  of a sheet are strings, numbers and booleans, and the conversion of these never throws.
\<close>

definition transactionToRow_throws :: "jsobj \<Rightarrow> bool" where
  "transactionToRow_throws transaction = ToPrimitive_throws (field transaction ''id'')"

definition transactionToRow :: "jsobj \<Rightarrow> jsval list" where
  "transactionToRow transaction =
     (let id = ToNumber (field transaction ''id'')
      in [JNum id,
          field transaction ''date'',
          field transaction ''type'',
          field transaction ''partner'',
          field transaction ''description'',
          field transaction ''amount'',
          field transaction ''deleted'',
          field transaction ''createdAt'',
          field transaction ''updatedAt'',
          field transaction ''createdTimestamp'',
          field transaction ''updatedTimestamp''])"

section \<open>The store and its failures\<close>

text \<open>
  The spreadsheet is the list of the rows of \<open>Sheet1\<close>, columns A to K, the header row
  first. It holds the cells as they were written and returns them so (the service itself
  may return a written number or boolean as formatted text, which is outside the
  repository). The configuration is the three
  environment variables that \<open>validateCredentials\<close> reads. Every call to the remote
  service can fail (the promise is rejected, \<open>getAuth\<close> throws): which calls fail during
  one run of \<open>loadDataFromSheets\<close> or \<open>saveDataToSheets\<close> is an input of the model, and
  a call that fails leaves the sheet as it was. A call of a function with more arguments
  than the stack of the engine can take throws a \<open>RangeError\<close>: how many arguments a call
  can take during the run (of the order of 100000 in Node.js with its default stack) is an
  input of the model as well.
\<close>

type_synonym sheet = "jsval list list"

record env =
  GOOGLE_SHEET_ID :: "string option"
  GOOGLE_CLIENT_EMAIL :: "string option"
  GOOGLE_PRIVATE_KEY :: "string option"

record faults =
  auth_fails :: bool
  get_fails :: bool
  clear_fails :: bool
  header_fails :: bool
  data_fails :: bool
  max_arguments :: int

datatype error = AuthError | RemoteError | RangeError

text \<open>\<open>!process.env.X\<close>: the variable is not set, or is the empty string.\<close>

definition unset :: "string option \<Rightarrow> bool" where
  "unset v = (case v of None \<Rightarrow> True | Some s \<Rightarrow> s = [])"

definition validateCredentials :: "env \<Rightarrow> bool" where
  "validateCredentials e =
     (if unset (GOOGLE_SHEET_ID e) then False
      else if unset (GOOGLE_CLIENT_EMAIL e) then False
      else if unset (GOOGLE_PRIVATE_KEY e) then False
      else True)"

definition getAuth :: "faults \<Rightarrow> error + unit" where
  "getAuth f = (if auth_fails f then Inl AuthError else Inr ())"

text \<open>\<open>values.get\<close> on \<open>Sheet1!A2:K\<close>: the rows after the header.\<close>

definition values_get :: "faults \<Rightarrow> sheet \<Rightarrow> error + jsval list list" where
  "values_get f sh = (if get_fails f then Inl RemoteError else Inr (drop 1 sh))"

text \<open>\<open>values.clear\<close> on \<open>Sheet1!A:K\<close>.\<close>

definition values_clear :: "faults \<Rightarrow> sheet \<Rightarrow> error + sheet" where
  "values_clear f sh = (if clear_fails f then Inl RemoteError else Inr [])"

text \<open>\<open>values.update\<close> on \<open>Sheet1!A1:K1\<close>: the first row is replaced.\<close>

definition values_update_header :: "faults \<Rightarrow> jsval list \<Rightarrow> sheet \<Rightarrow> error + sheet" where
  "values_update_header f hs sh =
     (if header_fails f then Inl RemoteError else Inr (hs # drop 1 sh))"

text \<open>
  \<open>values.update\<close> on \<open>Sheet1!A2:K\<close>: the rows from the second on are overwritten by
  the rows given, and rows further down stay.
\<close>

definition values_update_data :: "faults \<Rightarrow> jsval list list \<Rightarrow> sheet \<Rightarrow> error + sheet" where
  "values_update_data f vals sh =
     (if data_fails f then Inl RemoteError
      else Inr ((if sh = [] then [[]] else take 1 sh) @ vals @ drop (Suc (length vals)) sh))"

section \<open>Loading and saving (lib/googleSheets.ts)\<close>

record LedgerData =
  transactions :: "jsobj list"
  nextId :: jsnum
  lastUpdated :: string
  version :: string

text \<open>The structure both failure branches of \<open>loadDataFromSheets\<close> return.\<close>

definition defaultData :: "clock \<Rightarrow> LedgerData" where
  "defaultData clk =
     \<lparr>transactions = [], nextId = Fin 1, lastUpdated = nowIso clk, version = ''1.0''\<rparr>"

text \<open>
  \<open>rows.map((row, index) => rowToTransaction(row, index))\<close>
\<close>

definition decodeRows :: "jsval list list \<Rightarrow> clock \<Rightarrow> jsobj list" where
  "decodeRows rows clk = map (\<lambda>(index, row). rowToTransaction row index clk) (enumerate 0 rows)"

text \<open>
  \<open>Math.max(...xs)\<close>: the spread makes every element of the array an argument of the
  call.
\<close>

definition Math_max_spread :: "faults \<Rightarrow> jsnum list \<Rightarrow> error + jsnum" where
  "Math_max_spread f xs =
     (if max_arguments f < int (length xs) then Inl RangeError else Inr (Math_max xs))"

text \<open>
  Every error thrown inside the \<open>try\<close> of \<open>loadDataFromSheets\<close> is caught and answered
  with the default structure.
\<close>

definition loadDataFromSheets :: "env \<Rightarrow> faults \<Rightarrow> clock \<Rightarrow> sheet \<Rightarrow> LedgerData" where
  "loadDataFromSheets e f clk sh =
     (if \<not> validateCredentials e then defaultData clk
      else case getAuth f of
        Inl err \<Rightarrow> defaultData clk
      | Inr auth \<Rightarrow>
          (case values_get f sh of
             Inl err \<Rightarrow> defaultData clk
           | Inr rows \<Rightarrow>
               (let ts = decodeRows rows clk in
                case Math_max_spread f (map (\<lambda>t. ToNumber (field t ''id'')) ts @ [Fin 0]) of
                  Inl err \<Rightarrow> defaultData clk
                | Inr m \<Rightarrow>
                    \<lparr>transactions = filter (\<lambda>t. \<not> truthy (field t ''deleted'')) ts,
                     nextId = js_add m (Fin 1),
                     lastUpdated = nowIso clk,
                     version = ''1.0''\<rparr>)))"

definition headers :: "jsval list" where
  "headers = map JStr [''ID'', ''Date'', ''Type'', ''Partner'', ''Description'', ''Amount'',
     ''Deleted'', ''Created At'', ''Updated At'', ''Created Timestamp'', ''Updated Timestamp'']"

text \<open>
  \<open>saveDataToSheets\<close> returns whether the data was persisted; the model returns the sheet
  as the calls left it as well. The rows are made before the first remote call: an error
  thrown there is caught like every other and leaves the sheet as it was. A failure after
  the clear leaves the sheet cleared.
\<close>

definition saveDataToSheets :: "env \<Rightarrow> faults \<Rightarrow> LedgerData \<Rightarrow> sheet \<Rightarrow> bool \<times> sheet" where
  "saveDataToSheets e f data sh =
     (if \<not> validateCredentials e then (False, sh)
      else case getAuth f of
        Inl err \<Rightarrow> (False, sh)
      | Inr auth \<Rightarrow>
          if \<exists>t \<in> set (transactions data). transactionToRow_throws t then (False, sh)
          else
            (let vals = map transactionToRow (transactions data) in
             case values_clear f sh of
               Inl err \<Rightarrow> (False, sh)
             | Inr sh1 \<Rightarrow>
                 (case values_update_header f headers sh1 of
                    Inl err \<Rightarrow> (False, sh1)
                  | Inr sh2 \<Rightarrow>
                      if 0 < length vals then
                        (case values_update_data f vals sh2 of
                           Inl err \<Rightarrow> (False, sh2)
                         | Inr sh3 \<Rightarrow> (True, sh3))
                      else (True, sh2))))"

section \<open>The mutation handlers (src/server.ts)\<close>

text \<open>
  One request: the configuration, the failures met by its load and by its save, the clock
  its load reads, and \<open>now\<close>, the \<open>new Date()\<close> of the handler.
\<close>

record request =
  config :: env
  load_faults :: faults
  save_faults :: faults
  load_clock :: clock
  now :: clock

datatype response = Response nat jsobj

text \<open>
  \<open>xs.find(p)\<close> returns the first element that satisfies \<open>p\<close>, the very object of the
  array: what the handler then writes to it is seen through \<open>data.transactions\<close>. The model
  finds the position and writes the changed object at that position.
\<close>

fun findIndex :: "('a \<Rightarrow> bool) \<Rightarrow> 'a list \<Rightarrow> nat option" where
  "findIndex p [] = None"
| "findIndex p (x # xs) = (if p x then Some 0 else map_option Suc (findIndex p xs))"

text \<open>\<open>(t) => t.id === Number(req.params.id)\<close>\<close>

definition idMatches :: "string \<Rightarrow> jsobj \<Rightarrow> bool" where
  "idMatches param t = strict_equals_number (field t ''id'') (ToNumber (JStr param))"

text \<open>
  The object literal of \<open>app.post('/transactions')\<close>: the properties of the body first,
  then the six that the handler sets.
\<close>

definition newTransaction :: "jsobj \<Rightarrow> jsnum \<Rightarrow> clock \<Rightarrow> jsobj" where
  "newTransaction body ident clk =
     defineProperties (defineProperties [] body)
       [(''id'', JNum ident),
        (''deleted'', JBool False),
        (''createdAt'', JStr (nowIso clk)),
        (''updatedAt'', JStr (nowIso clk)),
        (''createdTimestamp'', JNum (Date_now clk)),
        (''updatedTimestamp'', JNum (Date_now clk))]"

text \<open>
  The in-memory part of the create: \<open>data.nextId++\<close> gives the identifier and raises the
  counter, the transaction is pushed, \<open>lastUpdated\<close> is stamped.
\<close>

definition createInMemory :: "LedgerData \<Rightarrow> jsobj \<Rightarrow> clock \<Rightarrow> jsobj \<times> LedgerData" where
  "createInMemory data body clk =
     (let transaction = newTransaction body (nextId data) clk
      in (transaction,
          data\<lparr>nextId := js_add (nextId data) (Fin 1),
               transactions := transactions data @ [transaction],
               lastUpdated := nowIso clk\<rparr>))"

definition post_transactions :: "request \<Rightarrow> jsobj \<Rightarrow> sheet \<Rightarrow> response \<times> sheet" where
  "post_transactions rq body sh =
     (let data = loadDataFromSheets (config rq) (load_faults rq) (load_clock rq) sh;
          (transaction, data2) = createInMemory data body (now rq);
          (saved, sh2) = saveDataToSheets (config rq) (save_faults rq) data2 sh
      in if \<not> saved then
           (Response 500 [(''error'', JStr ''Failed to persist transaction'')], sh2)
         else
           (Response 201 [(''message'', JStr ''Transaction added successfully''),
                          (''transaction'', JObj transaction)], sh2))"

text \<open>
  The in-memory part of the update: the body is merged in, then \<open>updatedAt\<close> and
  \<open>updatedTimestamp\<close> are assigned.
\<close>

definition updateInMemory :: "jsobj \<Rightarrow> jsobj \<Rightarrow> clock \<Rightarrow> jsobj" where
  "updateInMemory transaction body clk =
     Object_assign (Object_assign transaction body)
       [(''updatedAt'', JStr (nowIso clk)), (''updatedTimestamp'', JNum (Date_now clk))]"

definition put_transaction :: "request \<Rightarrow> string \<Rightarrow> jsobj \<Rightarrow> sheet \<Rightarrow> response \<times> sheet" where
  "put_transaction rq param body sh =
     (let data = loadDataFromSheets (config rq) (load_faults rq) (load_clock rq) sh in
      case findIndex (idMatches param) (transactions data) of
        None \<Rightarrow> (Response 404 [(''error'', JStr ''Transaction not found'')], sh)
      | Some k \<Rightarrow>
          (let transaction = updateInMemory (transactions data ! k) body (now rq);
               data2 = data\<lparr>transactions := (transactions data)[k := transaction],
                            lastUpdated := nowIso (now rq)\<rparr>;
               (saved, sh2) = saveDataToSheets (config rq) (save_faults rq) data2 sh
           in if \<not> saved then
                (Response 500 [(''error'', JStr ''Failed to persist transaction update'')], sh2)
              else
                (Response 200 [(''message'', JStr ''Transaction updated successfully''),
                               (''transaction'', JObj transaction)], sh2)))"

text \<open>The in-memory part of the soft delete: three assignments.\<close>

definition deleteInMemory :: "jsobj \<Rightarrow> clock \<Rightarrow> jsobj" where
  "deleteInMemory transaction clk =
     Object_assign transaction
       [(''deleted'', JBool True),
        (''updatedAt'', JStr (nowIso clk)),
        (''updatedTimestamp'', JNum (Date_now clk))]"

definition delete_transaction :: "request \<Rightarrow> string \<Rightarrow> sheet \<Rightarrow> response \<times> sheet" where
  "delete_transaction rq param sh =
     (let data = loadDataFromSheets (config rq) (load_faults rq) (load_clock rq) sh in
      case findIndex (idMatches param) (transactions data) of
        None \<Rightarrow> (Response 404 [(''error'', JStr ''Transaction not found'')], sh)
      | Some k \<Rightarrow>
          (let transaction = deleteInMemory (transactions data ! k) (now rq);
               data2 = data\<lparr>transactions := (transactions data)[k := transaction],
                            lastUpdated := nowIso (now rq)\<rparr>;
               (saved, sh2) = saveDataToSheets (config rq) (save_faults rq) data2 sh
           in if \<not> saved then
                (Response 500 [(''error'', JStr ''Failed to persist transaction deletion'')], sh2)
              else
                (Response 200 [(''message'', JStr ''Transaction marked as deleted''),
                               (''transaction'', JObj transaction)], sh2)))"

section \<open>Example inputs\<close>

text \<open>
  A configured environment, a run without failures in which a call can take 120000
  arguments, two clock readings one second apart, and
  a sheet with the one row of the ledger's usual shape: every cell a string, as the sheet
  returns formatted values.
\<close>

definition exampleEnv :: env where
  "exampleEnv = \<lparr>GOOGLE_SHEET_ID = Some ''sheet-1'', GOOGLE_CLIENT_EMAIL = Some ''svc@example.org'',
     GOOGLE_PRIVATE_KEY = Some ''key''\<rparr>"

definition noFaults :: faults where
  "noFaults = \<lparr>auth_fails = False, get_fails = False, clear_fails = False,
     header_fails = False, data_fails = False, max_arguments = 120000\<rparr>"

definition clockA :: clock where
  "clockA = \<lparr>nowIso = ''2024-03-01T10:00:00.000Z'', nowMs = 1709287200000\<rparr>"

definition clockB :: clock where
  "clockB = \<lparr>nowIso = ''2024-03-01T10:00:01.000Z'', nowMs = 1709287201000\<rparr>"

definition exampleRequest :: request where
  "exampleRequest = \<lparr>config = exampleEnv, load_faults = noFaults, save_faults = noFaults,
     load_clock = clockA, now = clockB\<rparr>"

definition lunchRow :: "jsval list" where
  "lunchRow = [JStr ''5'', JStr ''2024-01-01'', JStr ''expense'', JStr ''Alice'', JStr ''lunch'',
     JStr ''12.50'', JStr ''FALSE'', JStr ''2024-01-01T09:00:00.000Z'',
     JStr ''2024-01-01T09:00:00.000Z'', JStr ''1704099600000'', JStr ''1704099600000'']"

definition lunchSheet :: sheet where
  "lunchSheet = [headers, lunchRow]"

text \<open>The snapshot a handler loads at the start of a request.\<close>

abbreviation loaded :: "request \<Rightarrow> sheet \<Rightarrow> LedgerData" where
  "loaded rq sh \<equiv> loadDataFromSheets (config rq) (load_faults rq) (load_clock rq) sh"

definition typedLunchRow :: "jsval list" where
  "typedLunchRow = [JNum (Fin 5), JStr ''2024-01-01'', JStr ''expense'', JStr ''Alice'',
     JStr ''lunch'', JNum (Fin (25 / 2)), JBool False, JStr ''2024-01-01T09:00:00.000Z'',
     JStr ''2024-01-01T09:00:00.000Z'', JNum (Fin 1704099600000), JNum (Fin 1704099600000)]"

text \<open>A row whose \<open>createdAt\<close> cell is empty and whose \<open>createdTimestamp\<close> cell is 0.\<close>

definition staleRow :: "jsval list" where
  "staleRow = [JStr ''5'', JStr ''2024-01-01'', JStr ''expense'', JStr ''Alice'', JStr ''lunch'',
     JStr ''12.50'', JStr ''FALSE'', JStr [], JStr ''2024-01-01T09:00:00.000Z'', JStr ''0'',
     JStr ''1704099600000'']"

text \<open>
  A second row, and the sheet with both rows. \<open>mergedSheet\<close> is this sheet after
  \<open>PUT /transactions/5\<close> with the body \<open>{"id": 6}\<close>: two visible rows with the
  identifier 6. \<open>twinSheet\<close> is \<open>mergedSheet\<close> after \<open>DELETE /transactions/6\<close>: the
  first of them soft-deleted. \<open>ghostSheet\<close> has a soft-deleted row 5 and the visible row 6.
\<close>

definition dinnerRow :: "jsval list" where
  "dinnerRow = [JStr ''6'', JStr ''2024-01-02'', JStr ''income'', JStr ''Bob'', JStr ''sale'',
     JStr ''100'', JStr ''FALSE'', JStr ''2024-01-02T09:00:00.000Z'',
     JStr ''2024-01-02T09:00:00.000Z'', JStr ''1704186000000'', JStr ''1704186000000'']"

definition pairSheet :: sheet where
  "pairSheet = [headers, lunchRow, dinnerRow]"

definition typedDinnerRow :: "jsval list" where
  "typedDinnerRow = [JNum (Fin 6), JStr ''2024-01-02'', JStr ''income'', JStr ''Bob'',
     JStr ''sale'', JNum (Fin 100), JBool False, JStr ''2024-01-02T09:00:00.000Z'',
     JStr ''2024-01-02T09:00:00.000Z'', JNum (Fin 1704186000000), JNum (Fin 1704186000000)]"

definition mergedSheet :: sheet where
  "mergedSheet = [headers,
     [JNum (Fin 6), JStr ''2024-01-01'', JStr ''expense'', JStr ''Alice'', JStr ''lunch'',
      JNum (Fin (25 / 2)), JBool False, JStr ''2024-01-01T09:00:00.000Z'',
      JStr ''2024-03-01T10:00:01.000Z'', JNum (Fin 1704099600000), JNum (Fin 1709287201000)],
     typedDinnerRow]"

definition twinSheet :: sheet where
  "twinSheet = [headers,
     [JNum (Fin 6), JStr ''2024-01-01'', JStr ''expense'', JStr ''Alice'', JStr ''lunch'',
      JNum (Fin (25 / 2)), JBool True, JStr ''2024-01-01T09:00:00.000Z'',
      JStr ''2024-03-01T10:00:01.000Z'', JNum (Fin 1704099600000), JNum (Fin 1709287201000)],
     typedDinnerRow]"

definition deletedLunch :: jsobj where
  "deletedLunch = [(''id'', JNum (Fin 6)), (''date'', JStr ''2024-01-01''),
     (''type'', JStr ''expense''), (''partner'', JStr ''Alice''),
     (''description'', JStr ''lunch''), (''amount'', JNum (Fin (25 / 2))),
     (''deleted'', JBool True), (''createdAt'', JStr ''2024-01-01T09:00:00.000Z''),
     (''updatedAt'', JStr ''2024-03-01T10:00:01.000Z''),
     (''createdTimestamp'', JNum (Fin 1704099600000)),
     (''updatedTimestamp'', JNum (Fin 1709287201000))]"

definition dinner :: jsobj where
  "dinner = [(''id'', JNum (Fin 6)), (''date'', JStr ''2024-01-02''),
     (''type'', JStr ''income''), (''partner'', JStr ''Bob''),
     (''description'', JStr ''sale''), (''amount'', JNum (Fin 100)),
     (''deleted'', JBool False), (''createdAt'', JStr ''2024-01-02T09:00:00.000Z''),
     (''updatedAt'', JStr ''2024-01-02T09:00:00.000Z''),
     (''createdTimestamp'', JNum (Fin 1704186000000)),
     (''updatedTimestamp'', JNum (Fin 1704186000000))]"



text \<open>
  The sheet with both rows after \<open>DELETE /transactions/6\<close> (\<open>deletedSheet\<close>), then
  after \<open>PUT /transactions/5\<close> with a new amount (\<open>purgedSheet\<close>: the soft-deleted row
  is no longer written), then after a create (\<open>reusedSheet\<close>).
\<close>

definition deletedDinner :: jsobj where
  "deletedDinner = [(''id'', JNum (Fin 6)), (''date'', JStr ''2024-01-02''),
     (''type'', JStr ''income''), (''partner'', JStr ''Bob''),
     (''description'', JStr ''sale''), (''amount'', JNum (Fin 100)),
     (''deleted'', JBool True), (''createdAt'', JStr ''2024-01-02T09:00:00.000Z''),
     (''updatedAt'', JStr ''2024-03-01T10:00:01.000Z''),
     (''createdTimestamp'', JNum (Fin 1704186000000)),
     (''updatedTimestamp'', JNum (Fin 1709287201000))]"

definition deletedSheet :: sheet where
  "deletedSheet = [headers, typedLunchRow,
     [JNum (Fin 6), JStr ''2024-01-02'', JStr ''income'', JStr ''Bob'', JStr ''sale'',
      JNum (Fin 100), JBool True, JStr ''2024-01-02T09:00:00.000Z'',
      JStr ''2024-03-01T10:00:01.000Z'', JNum (Fin 1704186000000), JNum (Fin 1709287201000)]]"

definition purgedSheet :: sheet where
  "purgedSheet = [headers,
     [JNum (Fin 5), JStr ''2024-01-01'', JStr ''expense'', JStr ''Alice'', JStr ''lunch'',
      JNum (Fin 20), JBool False, JStr ''2024-01-01T09:00:00.000Z'',
      JStr ''2024-03-01T10:00:01.000Z'', JNum (Fin 1704099600000), JNum (Fin 1709287201000)]]"

definition feeBody :: jsobj where
  "feeBody = [(''date'', JStr ''2024-03-01''), (''type'', JStr ''income''),
     (''partner'', JStr ''Carol''), (''description'', JStr ''fee''), (''amount'', JNum (Fin 7))]"

definition reusedSheet :: sheet where
  "reusedSheet = [headers,
     [JNum (Fin 5), JStr ''2024-01-01'', JStr ''expense'', JStr ''Alice'', JStr ''lunch'',
      JNum (Fin 20), JBool False, JStr ''2024-01-01T09:00:00.000Z'',
      JStr ''2024-03-01T10:00:01.000Z'', JNum (Fin 1704099600000), JNum (Fin 1709287201000)],
     [JNum (Fin 6), JStr ''2024-03-01'', JStr ''income'', JStr ''Carol'', JStr ''fee'',
      JNum (Fin 7), JBool False, JStr ''2024-03-01T10:00:01.000Z'',
      JStr ''2024-03-01T10:00:01.000Z'', JNum (Fin 1709287201000), JNum (Fin 1709287201000)]]"

text \<open>
  A sheet with the identifiers 7 and \<open>7.1e22\<close>, and what \<open>DELETE /transactions/7\<close>
  leaves of it: the double nearest to \<open>7.1e22\<close> is 71000000000000002097152.
\<close>

definition hugeSheet :: sheet where
  "hugeSheet = [headers, [JStr ''7''], [JStr ''71000000000000000000000'']]"

definition hugeSheetAfter :: sheet where
  "hugeSheetAfter = [headers,
     [JNum (Fin 7), JStr [], JStr [], JStr [], JStr [], JNum (Fin 0), JBool True,
      JStr ''2024-03-01T10:00:00.000Z'', JStr ''2024-03-01T10:00:01.000Z'',
      JNum (Fin 1709287200000), JNum (Fin 1709287201000)],
     [JNum (Fin 71000000000000002097152), JStr [], JStr [], JStr [], JStr [], JNum (Fin 0),
      JBool False, JStr ''2024-03-01T10:00:00.000Z'', JStr ''2024-03-01T10:00:00.000Z'',
      JNum (Fin 1709287200000), JNum (Fin 1709287200000)]]"

text \<open>
  A sheet whose only row has a negative identifier, and one whose only row has the
  identifier \<open>2^53\<close>.
\<close>

definition debtSheet :: sheet where
  "debtSheet = [headers, [JStr ''-5'', JStr ''2024-01-01'', JStr ''expense'', JStr ''Alice'',
     JStr ''refund'', JStr ''3.00'', JStr ''FALSE'']]"

text \<open>
  A sheet with as many data rows as a call can take arguments in the run without failures:
  the spread of their identifiers and 0 is one argument too many.
\<close>

definition longSheet :: sheet where
  "longSheet = headers # replicate 120000 [JStr ''7'']"

text \<open>A request body whose \<open>id\<close> is an object that has no primitive value.\<close>

definition opaqueIdBody :: jsobj where
  "opaqueIdBody = [(''id'', JObj [(''toString'', JNum (Fin 1))])]"

definition largeSheet :: sheet where
  "largeSheet = [headers, [JStr ''9007199254740992'', JStr ''2024-01-01'', JStr ''expense'',
     JStr ''Alice'', JStr ''refund'', JStr ''3.00'', JStr ''FALSE'']]"

section \<open>Rows in the form that \<open>transactionToRow\<close> writes\<close>

text \<open>
  \<open>transactionToRow\<close> writes typed cells: a number for the identifier, the amount and the
  two timestamps, a boolean for the flag. The predicates below say when a row of eleven
  cells has this form with values that \<open>rowToTransaction\<close> keeps: an integer identifier
  that is printed in plain notation (below \<open>10^21\<close> in magnitude), text cells that are the
  empty string or truthy, an amount that is not \<open>NaN\<close>, truthy \<open>createdAt\<close> and
  \<open>updatedAt\<close>, and non-zero integer timestamps in plain notation.
\<close>

definition plainInteger :: "jsnum \<Rightarrow> bool" where
  "plainInteger x = (case x of Fin q \<Rightarrow> of_int \<lfloor>q\<rfloor> = q \<and> \<bar>q\<bar> < 10 ^ 21 | _ \<Rightarrow> False)"

definition idCell :: "jsval \<Rightarrow> bool" where
  "idCell v = (case v of JNum x \<Rightarrow> plainInteger x | _ \<Rightarrow> False)"

definition textCell :: "jsval \<Rightarrow> bool" where
  "textCell v = (v = JStr [] \<or> truthy v)"

definition amountCell :: "jsval \<Rightarrow> bool" where
  "amountCell v = (case v of JNum x \<Rightarrow> x \<noteq> NaN | _ \<Rightarrow> False)"

definition flagCell :: "jsval \<Rightarrow> bool" where
  "flagCell v = (case v of JBool b \<Rightarrow> True | _ \<Rightarrow> False)"

definition stampCell :: "jsval \<Rightarrow> bool" where
  "stampCell v = (case v of JNum x \<Rightarrow> plainInteger x \<and> x \<noteq> Fin 0 | _ \<Rightarrow> False)"

definition typedRow :: "jsval list \<Rightarrow> bool" where
  "typedRow row =
     (length row = 11 \<and> idCell (row ! 0)
      \<and> textCell (row ! 1) \<and> textCell (row ! 2) \<and> textCell (row ! 3) \<and> textCell (row ! 4)
      \<and> amountCell (row ! 5) \<and> flagCell (row ! 6)
      \<and> truthy (row ! 7) \<and> truthy (row ! 8)
      \<and> stampCell (row ! 9) \<and> stampCell (row ! 10))"

text \<open>A number that is an integer or an infinity.\<close>

definition integerOrInfinite :: "jsnum \<Rightarrow> bool" where
  "integerOrInfinite x = (case x of NaN \<Rightarrow> False | Fin q \<Rightarrow> of_int \<lfloor>q\<rfloor> = q | _ \<Rightarrow> True)"

section \<open>Properties\<close>

subsection \<open>Objects and lists\<close>

lemma map_of_insertIndexed:
  "k \<notin> fst ` set ob \<Longrightarrow> map_of (insertIndexed i k v ob) = (map_of ob)(k \<mapsto> v)"
proof (induction ob)
  case Nil
  show ?case by simp
next
  case (Cons p ob)
  obtain k' v' where p: "p = (k', v')" by (cases p)
  from Cons.prems have ne: "k \<noteq> k'" and notin: "k \<notin> fst ` set ob"
    by (auto simp add: p)
  from Cons.IH [OF notin] ne show ?case
    by (auto simp add: p fun_eq_iff split: option.splits)
qed

lemma map_of_defineOwnProperty:
  "map_of (defineOwnProperty ob k v) = (map_of ob)(k \<mapsto> v)"
proof (cases "k \<in> fst ` set ob")
  case True
  have "map_of (AList.update k v ob) = (map_of ob)(k \<mapsto> v)"
    by (rule update_conv')
  with True show ?thesis by (simp add: defineOwnProperty_def)
next
  case False
  then have "map_of ob k = None"
    by (simp add: map_of_eq_None_iff)
  then have "map_of (ob @ [(k, v)]) = (map_of ob)(k \<mapsto> v)"
    by (auto simp add: fun_eq_iff map_add_def split: option.splits)
  with False show ?thesis
    by (simp add: defineOwnProperty_def map_of_insertIndexed split: option.splits)
qed

lemma map_of_defineProperties:
  "map_of (defineProperties t src) = map_of t ++ map_of (rev src)"
  unfolding defineProperties_def
proof (induction src arbitrary: t)
  case Nil
  show ?case by simp
next
  case (Cons p src)
  obtain k v where p: "p = (k, v)" by (cases p)
  show ?case
    by (auto simp add: p Cons.IH map_of_defineOwnProperty map_add_def fun_eq_iff split: option.splits)
qed

lemma field_defineProperties:
  "field (defineProperties t src) key =
     (case map_of (rev src) key of None \<Rightarrow> field t key | Some v \<Rightarrow> v)"
  by (simp add: field_def map_of_defineProperties map_add_def split: option.splits)

lemma map_of_Object_assign:
  "key \<noteq> ''__proto__'' \<Longrightarrow>
     map_of (Object_assign t src) key = (map_of t ++ map_of (rev src)) key"
  unfolding Object_assign_def
proof (induction src arbitrary: t)
  case Nil
  show ?case by simp
next
  case (Cons p src)
  obtain k v where p: "p = (k, v)" by (cases p)
  from Cons.prems show ?case
    by (auto simp add: p Cons.IH map_of_defineOwnProperty map_add_def split: option.splits)
qed

lemma field_Object_assign:
  "key \<noteq> ''__proto__'' \<Longrightarrow>
     field (Object_assign t src) key =
       (case map_of (rev src) key of None \<Rightarrow> field t key | Some v \<Rightarrow> v)"
  by (simp add: field_def map_of_Object_assign map_add_def split: option.splits)





lemma findIndex_None: "(findIndex p xs = None) = (\<forall>x\<in>set xs. \<not> p x)"
  by (induction xs) auto

lemma findIndex_Some:
  "findIndex p xs = Some k \<Longrightarrow> k < length xs \<and> p (xs ! k) \<and> (\<forall>j<k. \<not> p (xs ! j))"
proof (induction xs arbitrary: k)
  case Nil
  then show ?case by simp
next
  case (Cons x xs)
  show ?case
  proof (cases "p x")
    case True
    with Cons.prems show ?thesis by simp
  next
    case False
    with Cons.prems obtain k' where k': "findIndex p xs = Some k'" "k = Suc k'"
      by auto
    from Cons.IH[OF k'(1)] False k'(2) show ?thesis
      by (auto simp add: less_Suc_eq_0_disj)
  qed
qed

subsection \<open>What a load returns\<close>

lemma decodeRows_decoded:
  "t \<in> set (decodeRows rows clk) \<Longrightarrow> \<exists>row i. t = rowToTransaction row i clk"
  by (auto simp add: decodeRows_def)

lemma length_decodeRows: "length (decodeRows rows clk) = length rows"
  by (simp add: decodeRows_def)

lemma decodeRows_nth:
  "j < length rows \<Longrightarrow> decodeRows rows clk ! j = rowToTransaction (rows ! j) j clk"
  by (simp add: decodeRows_def nth_enumerate_eq)

lemma longSheet_rows:
  "int (length (drop 1 longSheet)) = 120000"
  "decodeRows (drop 1 longSheet) clk ! 0 = rowToTransaction [JStr ''7''] 0 clk"
proof -
  have d: "drop 1 longSheet = replicate 120000 [JStr ''7'']"
    by (simp only: longSheet_def One_nat_def drop_Suc_Cons drop_0)
  show "int (length (drop 1 longSheet)) = 120000"
    by (simp only: d length_replicate of_nat_numeral)
  have "(0::nat) < 120000" by simp
  then have "decodeRows (replicate 120000 [JStr ''7'']) clk ! 0 =
      rowToTransaction (replicate 120000 [JStr ''7''] ! 0) 0 clk"
    by (simp only: decodeRows_nth length_replicate)
  also have "replicate 120000 [JStr ''7''] ! 0 = [JStr ''7'']"
    by (rule nth_replicate) simp
  finally show "decodeRows (drop 1 longSheet) clk ! 0 = rowToTransaction [JStr ''7''] 0 clk"
    by (simp only: d)
qed

lemma load_success:
  assumes "validateCredentials e" "\<not> auth_fails f" "\<not> get_fails f"
    "int (length (drop 1 sh)) < max_arguments f"
  shows "loadDataFromSheets e f clk sh =
     \<lparr>transactions = filter (\<lambda>t. \<not> truthy (field t ''deleted'')) (decodeRows (drop 1 sh) clk),
      nextId = js_add (Math_max (map (\<lambda>t. ToNumber (field t ''id'')) (decodeRows (drop 1 sh) clk) @ [Fin 0])) (Fin 1),
      lastUpdated = nowIso clk, version = ''1.0''\<rparr>"
  using assms
  by (simp add: loadDataFromSheets_def getAuth_def values_get_def Math_max_spread_def Let_def
      decodeRows_def)

lemma load_failure:
  assumes "\<not> (validateCredentials e \<and> \<not> auth_fails f \<and> \<not> get_fails f
      \<and> int (length (drop 1 sh)) < max_arguments f)"
  shows "loadDataFromSheets e f clk sh = defaultData clk"
  using assms
  by (auto simp add: loadDataFromSheets_def getAuth_def values_get_def Math_max_spread_def Let_def
      decodeRows_def)

lemma loaded_visible:
  assumes "t \<in> set (transactions (loadDataFromSheets e f clk sh))"
  shows "t \<in> set (decodeRows (drop 1 sh) clk) \<and> \<not> truthy (field t ''deleted'')"
proof (cases "validateCredentials e \<and> \<not> auth_fails f \<and> \<not> get_fails f
    \<and> int (length (drop 1 sh)) < max_arguments f")
  case True
  with assms show ?thesis by (simp add: load_success)
next
  case False
  then have "loadDataFromSheets e f clk sh = defaultData clk" by (rule load_failure)
  with assms show ?thesis by (simp add: defaultData_def)
qed

subsection \<open>Doubles\<close>

lemma roundHalfEven_of_int: "roundHalfEven (of_int n) = n"
  by (simp add: roundHalfEven_def)

lemma pow2_nonneg: "0 \<le> e \<Longrightarrow> pow2 e = of_int (2 ^ nat e)"
  by (simp add: pow2_def)

lemma roundToDouble_int_cases:
  "roundToDouble (of_int n) = PosInf \<or> roundToDouble (of_int n) = NegInf
   \<or> (\<exists>k::int. roundToDouble (of_int n) = Fin (of_int k))"
proof (cases "n = 0")
  case True
  then have "roundToDouble (of_int n) = Fin (of_int 0)" by (simp add: roundToDouble_def)
  then show ?thesis by blast
next
  case False
  define a :: rat where "a = \<bar>of_int n\<bar>"
  define e where "e = max (binaryExponent a) (- 1022)"
  define m where "m = roundHalfEven (a / pow2 (e - 52))"
  have r: "roundToDouble (of_int n) =
      (if 1023 < e \<or> (e = 1023 \<and> 2 ^ 53 \<le> m) then (if (of_int n :: rat) < 0 then NegInf else PosInf)
       else Fin (sgn (of_int n) * (of_int m * pow2 (e - 52))))"
    using False by (simp only: roundToDouble_def Let_def a_def e_def m_def of_int_eq_0_iff if_False)
  have "\<exists>k::int. sgn (of_int n :: rat) * (of_int m * pow2 (e - 52)) = of_int k"
  proof (cases "52 \<le> e")
    case True
    then have "pow2 (e - 52) = of_int (2 ^ nat (e - 52))" by (simp add: pow2_nonneg)
    then have "sgn (of_int n :: rat) * (of_int m * pow2 (e - 52)) = of_int (sgn n * (m * 2 ^ nat (e - 52)))"
      by (simp add: sgn_if)
    then show ?thesis ..
  next
    case False
    then have u: "pow2 (e - 52) = 1 / 2 ^ nat (52 - e)" by (simp add: pow2_def)
    have "a / pow2 (e - 52) = of_int (\<bar>n\<bar> * 2 ^ nat (52 - e))"
      by (simp add: u a_def)
    then have "m = \<bar>n\<bar> * 2 ^ nat (52 - e)"
      unfolding m_def by (simp only: roundHalfEven_of_int)
    then have "of_int m * pow2 (e - 52) = (of_int \<bar>n\<bar> :: rat)"
      by (simp add: u)
    then have "sgn (of_int n :: rat) * (of_int m * pow2 (e - 52)) = of_int (sgn n * \<bar>n\<bar>)"
      by (simp add: sgn_if)
    then show ?thesis ..
  qed
  with r show ?thesis by auto
qed

lemma binaryExponent_int:
  assumes "0 < n"
  shows "binaryExponent (of_int n) = bitlen n - 1"
proof -
  from bitlen_bounds [OF assms] have b: "2 ^ nat (bitlen n - 1) \<le> n" by simp
  from assms have "1 \<le> bitlen n" by (simp add: bitlen_alt_def)
  then have "pow2 (bitlen n - 1) = of_int (2 ^ nat (bitlen n - 1))"
    by (simp add: pow2_nonneg)
  also from b have "\<dots> \<le> (of_int n :: rat)"
    by (simp only: of_int_le_iff)
  finally have le: "pow2 (bitlen n - 1) \<le> of_int n" .
  have one: "bitlen 1 = 1" by (simp add: bitlen_alt_def)
  show ?thesis
    using le by (simp add: binaryExponent_def Let_def one)
qed

text \<open>The integers up to \<open>2^53\<close> are doubles.\<close>

lemma roundToDouble_exact:
  assumes "0 < n" "n \<le> 2 ^ 53"
  shows "roundToDouble (of_int n) = Fin (of_int n)"
proof -
  define e where "e = bitlen n - 1"
  from assms(1) have e0: "0 \<le> e" by (simp add: e_def bitlen_alt_def)
  from bitlen_bounds [OF assms(1)] have lo: "2 ^ nat e \<le> n" by (simp add: e_def)
  have e53: "e \<le> 53"
  proof (rule ccontr)
    assume "\<not> e \<le> 53"
    then have "54 \<le> nat e" by simp
    then have "(2::int) ^ 54 \<le> 2 ^ nat e"
      by (rule power_increasing) simp_all
    from this lo have "(2::int) ^ 54 \<le> n" by (rule order_trans)
    with assms(2) show False by simp
  qed
  have be: "max (binaryExponent \<bar>of_int n\<bar>) (- 1022) = e"
    using assms(1) e0 by (simp add: binaryExponent_int e_def)
  define m where "m = roundHalfEven (\<bar>of_int n\<bar> / pow2 (e - 52))"
  from assms(1) have nz: "(of_int n :: rat) \<noteq> 0" "sgn (of_int n :: rat) = 1"
    "\<not> (1023 < e \<or> (e = 1023 \<and> 2 ^ 53 \<le> m))"
    using e53 by simp_all
  have "roundToDouble (of_int n) =
      (if 1023 < e \<or> (e = 1023 \<and> 2 ^ 53 \<le> m) then (if (of_int n :: rat) < 0 then NegInf else PosInf)
       else Fin (sgn (of_int n) * (of_int m * pow2 (e - 52))))"
    using nz(1) by (simp only: roundToDouble_def Let_def be m_def if_False)
  with nz have r: "roundToDouble (of_int n) = Fin (of_int m * pow2 (e - 52))"
    by (simp only: if_False mult_1)
  have "of_int m * pow2 (e - 52) = (of_int n :: rat)"
  proof (cases "e \<le> 52")
    case True
    then have u: "pow2 (e - 52) = 1 / 2 ^ nat (52 - e)"
      by (cases "e = 52") (simp_all add: pow2_def)
    have "\<bar>of_int n :: rat\<bar> / pow2 (e - 52) = of_int (n * 2 ^ nat (52 - e))"
      using assms(1) by (simp add: u)
    then have "m = n * 2 ^ nat (52 - e)"
      unfolding m_def by (simp only: roundHalfEven_of_int)
    then show ?thesis by (simp add: u)
  next
    case False
    with e53 have e: "e = 53" by simp
    with lo assms(2) have n: "n = 2 ^ 53" by simp
    have "m = 2 ^ 52"
      unfolding m_def by (simp add: e n pow2_def roundHalfEven_def)
    then show ?thesis by (simp add: e n pow2_def)
  qed
  with r show ?thesis by simp
qed

subsection \<open>The decoded identifier\<close>

lemma field_rowToTransaction_id:
  "field (rowToTransaction row i clk) ''id'' =
     JNum (if cell row 0 = JUndefined \<or> cell row 0 = JNull \<or> cell row 0 = JStr [] then Fin (of_nat i + 1)
           else if parseInt_js (cell row 0) = NaN then Fin (of_nat i + 1)
           else parseInt_js (cell row 0))"
  by (simp add: rowToTransaction_def field_def Let_def)

text \<open>
  C5. A first cell is numeric when it is there, is not the empty string and \<open>parseInt\<close>
  reads a number from it. Then the identifier of the decoded transaction is that number,
  whatever the position of the row; when the first cell is missing (\<open>undefined\<close> or
  \<open>null\<close>), empty or not numeric, the identifier is the position plus one.
\<close>

theorem decode_id:
  "(cell row 0 \<noteq> JUndefined \<and> cell row 0 \<noteq> JNull \<and> cell row 0 \<noteq> JStr []
      \<and> parseInt_js (cell row 0) \<noteq> NaN
      \<longrightarrow> field (rowToTransaction row i clk) ''id'' = JNum (parseInt_js (cell row 0)))
   \<and> (cell row 0 = JUndefined \<or> cell row 0 = JNull \<or> cell row 0 = JStr []
      \<or> parseInt_js (cell row 0) = NaN
      \<longrightarrow> field (rowToTransaction row i clk) ''id'' = JNum (Fin (of_nat i + 1)))"
  by (auto simp add: field_rowToTransaction_id)

theorem decode_id_witness:
  "cell lunchRow 0 = JStr ''5'' \<and> parseInt_js (cell lunchRow 0) = Fin 5
   \<and> field (rowToTransaction lunchRow 7 clockA) ''id'' = JNum (Fin 5)
   \<and> parseInt_js (cell [JStr ''n/a'', JStr ''2024-01-01''] 0) = NaN
   \<and> field (rowToTransaction [JStr ''n/a'', JStr ''2024-01-01''] 7 clockA) ''id'' = JNum (Fin 8)
   \<and> cell [] 0 = JUndefined
   \<and> field (rowToTransaction [] 7 clockA) ''id'' = JNum (Fin 8)"
proof -
  have c: "cell lunchRow 0 = JStr ''5''" "parseInt_js (cell lunchRow 0) = Fin 5"
    by code_simp+
  have n: "parseInt_js (cell [JStr ''n/a'', JStr ''2024-01-01''] 0) = NaN"
    by code_simp
  have u: "cell [] 0 = JUndefined"
    by code_simp
  from decode_id [of lunchRow 7 clockA] c
  have 1: "field (rowToTransaction lunchRow 7 clockA) ''id'' = JNum (Fin 5)"
    by simp
  from decode_id [of "[JStr ''n/a'', JStr ''2024-01-01'']" 7 clockA] n
  have 2: "field (rowToTransaction [JStr ''n/a'', JStr ''2024-01-01''] 7 clockA) ''id'' = JNum (Fin 8)"
    by simp
  from decode_id [of "[]" 7 clockA] u
  have 3: "field (rowToTransaction [] 7 clockA) ''id'' = JNum (Fin 8)"
    by simp
  from c n u 1 2 3 show ?thesis by simp
qed

subsection \<open>Failures of the store\<close>

text \<open>
  C6. \<open>loadDataFromSheets\<close> and \<open>saveDataToSheets\<close> return a value in every case: the
  model has a branch for every failure and none of them is an error. When the
  configuration is missing or a remote call of the load fails, the load returns the empty
  snapshot with \<open>nextId\<close> 1 and version 1.0; when the configuration is missing or a
  remote call that the save makes fails, the save returns false, and it returns true in
  every other case but one: it also returns false when an identifier cannot be converted
  to a number. The data rows are only written when there are transactions, so that call can
  only fail then. The load also returns the empty snapshot when the call of \<open>Math.max\<close>
  throws, which it does when the rows are as many as the arguments that a call can take, or
  more.
\<close>

theorem load_save_never_raise:
  "(\<not> validateCredentials e \<or> auth_fails f \<or> get_fails f \<longrightarrow>
      loadDataFromSheets e f clk sh =
        \<lparr>transactions = [], nextId = Fin 1, lastUpdated = nowIso clk, version = ''1.0''\<rparr>)
   \<and> (\<not> validateCredentials e \<or> auth_fails f \<or> clear_fails f \<or> header_fails f
        \<or> (data_fails f \<and> transactions data \<noteq> []) \<longrightarrow>
      fst (saveDataToSheets e f data sh) = False)
   \<and> fst (saveDataToSheets e f data sh) =
       (validateCredentials e \<and> \<not> auth_fails f \<and> \<not> clear_fails f \<and> \<not> header_fails f
        \<and> (transactions data = [] \<or> \<not> data_fails f)
        \<and> (\<forall>t \<in> set (transactions data). \<not> transactionToRow_throws t))
   \<and> (max_arguments f \<le> int (length (drop 1 sh)) \<longrightarrow>
      loadDataFromSheets e f clk sh =
        \<lparr>transactions = [], nextId = Fin 1, lastUpdated = nowIso clk, version = ''1.0''\<rparr>)"
proof -
  have 1: "\<not> validateCredentials e \<or> auth_fails f \<or> get_fails f \<or> max_arguments f \<le> int (length (drop 1 sh))
      \<Longrightarrow> loadDataFromSheets e f clk sh =
        \<lparr>transactions = [], nextId = Fin 1, lastUpdated = nowIso clk, version = ''1.0''\<rparr>"
    using load_failure [of e f sh clk] by (auto simp add: defaultData_def)
  have 2: "fst (saveDataToSheets e f data sh) =
       (validateCredentials e \<and> \<not> auth_fails f \<and> \<not> clear_fails f \<and> \<not> header_fails f
        \<and> (transactions data = [] \<or> \<not> data_fails f)
        \<and> (\<forall>t \<in> set (transactions data). \<not> transactionToRow_throws t))"
    by (auto simp add: saveDataToSheets_def getAuth_def values_clear_def values_update_header_def
        values_update_data_def Let_def split: sum.splits)
  from 1 2 show ?thesis by blast
qed

theorem load_save_never_raise_witness:
  "get_fails (noFaults\<lparr>get_fails := True\<rparr>)
   \<and> loadDataFromSheets exampleEnv (noFaults\<lparr>get_fails := True\<rparr>) clockA lunchSheet =
       \<lparr>transactions = [], nextId = Fin 1, lastUpdated = ''2024-03-01T10:00:00.000Z'',
        version = ''1.0''\<rparr>
   \<and> header_fails (noFaults\<lparr>header_fails := True\<rparr>)
   \<and> fst (saveDataToSheets exampleEnv (noFaults\<lparr>header_fails := True\<rparr>)
        (loadDataFromSheets exampleEnv noFaults clockA lunchSheet) lunchSheet) = False
   \<and> max_arguments noFaults \<le> int (length (drop 1 longSheet))
   \<and> loadDataFromSheets exampleEnv noFaults clockA longSheet =
       \<lparr>transactions = [], nextId = Fin 1, lastUpdated = ''2024-03-01T10:00:00.000Z'',
        version = ''1.0''\<rparr>
   \<and> transactionToRow_throws opaqueIdBody
   \<and> fst (saveDataToSheets exampleEnv noFaults
        \<lparr>transactions = [opaqueIdBody], nextId = Fin 2, lastUpdated = ''2024-03-01T10:00:01.000Z'',
         version = ''1.0''\<rparr> lunchSheet) = False
   \<and> put_transaction exampleRequest ''5'' opaqueIdBody lunchSheet =
       (Response 500 [(''error'', JStr ''Failed to persist transaction update'')], lunchSheet)"
proof -
  have g: "get_fails (noFaults\<lparr>get_fails := True\<rparr>)"
    and h: "header_fails (noFaults\<lparr>header_fails := True\<rparr>)"
    by simp_all
  have i: "nowIso clockA = ''2024-03-01T10:00:00.000Z''"
    by (simp add: clockA_def)
  from load_save_never_raise [of exampleEnv "noFaults\<lparr>get_fails := True\<rparr>" clockA lunchSheet] g i
  have 1: "loadDataFromSheets exampleEnv (noFaults\<lparr>get_fails := True\<rparr>) clockA lunchSheet =
       \<lparr>transactions = [], nextId = Fin 1, lastUpdated = ''2024-03-01T10:00:00.000Z'',
        version = ''1.0''\<rparr>"
    by simp
  from load_save_never_raise [of exampleEnv "noFaults\<lparr>header_fails := True\<rparr>" clockA lunchSheet
      "loadDataFromSheets exampleEnv noFaults clockA lunchSheet"] h
  have 2: "fst (saveDataToSheets exampleEnv (noFaults\<lparr>header_fails := True\<rparr>)
        (loadDataFromSheets exampleEnv noFaults clockA lunchSheet) lunchSheet) = False"
    by simp
  have m: "max_arguments noFaults \<le> int (length (drop 1 longSheet))"
    unfolding longSheet_rows(1) by (simp add: noFaults_def)
  from load_save_never_raise [of exampleEnv noFaults clockA longSheet] m i
  have 3: "loadDataFromSheets exampleEnv noFaults clockA longSheet =
       \<lparr>transactions = [], nextId = Fin 1, lastUpdated = ''2024-03-01T10:00:00.000Z'',
        version = ''1.0''\<rparr>"
    by (simp only: simp_thms)
  have t: "transactionToRow_throws opaqueIdBody"
    by code_simp
  have p: "put_transaction exampleRequest ''5'' opaqueIdBody lunchSheet =
       (Response 500 [(''error'', JStr ''Failed to persist transaction update'')], lunchSheet)"
    by code_simp
  from load_save_never_raise [of exampleEnv noFaults clockA lunchSheet
      "\<lparr>transactions = [opaqueIdBody], nextId = Fin 2, lastUpdated = ''2024-03-01T10:00:01.000Z'',
         version = ''1.0''\<rparr>"] t
  have 4: "fst (saveDataToSheets exampleEnv noFaults
        \<lparr>transactions = [opaqueIdBody], nextId = Fin 2, lastUpdated = ''2024-03-01T10:00:01.000Z'',
         version = ''1.0''\<rparr> lunchSheet) = False"
    by simp
  from g h 1 2 m 3 t 4 p show ?thesis by (simp only: simp_thms)
qed

subsection \<open>Update and soft delete of an unknown identifier\<close>

text \<open>
  C8. When no transaction of the loaded snapshot has the identifier of the request, the
  update and the soft delete answer 404 with the error "Transaction not found", and the
  sheet is the one they started from: \<open>saveDataToSheets\<close> is not called.
\<close>

theorem not_found_no_write:
  assumes "\<forall>t \<in> set (transactions (loaded rq sh)). \<not> idMatches param t"
  shows "put_transaction rq param body sh =
           (Response 404 [(''error'', JStr ''Transaction not found'')], sh)
       \<and> delete_transaction rq param sh =
           (Response 404 [(''error'', JStr ''Transaction not found'')], sh)"
proof -
  from assms have "findIndex (idMatches param) (transactions (loaded rq sh)) = None"
    by (simp add: findIndex_None)
  then show ?thesis
    by (simp add: put_transaction_def delete_transaction_def Let_def)
qed

theorem not_found_no_write_witness:
  "map (idMatches ''6'') (transactions (loaded exampleRequest lunchSheet)) = [False]
   \<and> put_transaction exampleRequest ''6'' [(''amount'', JNum (Fin 20))] lunchSheet =
       (Response 404 [(''error'', JStr ''Transaction not found'')], lunchSheet)
   \<and> delete_transaction exampleRequest ''6'' lunchSheet =
       (Response 404 [(''error'', JStr ''Transaction not found'')], lunchSheet)"
proof -
  have m: "map (idMatches ''6'') (transactions (loaded exampleRequest lunchSheet)) = [False]"
    by code_simp
  then have "list_all (\<lambda>t. \<not> idMatches ''6'' t) (transactions (loaded exampleRequest lunchSheet))"
    by (cases "transactions (loaded exampleRequest lunchSheet)") auto
  then have h: "\<forall>t \<in> set (transactions (loaded exampleRequest lunchSheet)). \<not> idMatches ''6'' t"
    by (simp add: list_all_iff)
  from not_found_no_write [OF h, of "[(''amount'', JNum (Fin 20))]"] m
  show ?thesis by simp
qed

subsection \<open>Update of a located transaction\<close>




subsection \<open>Create\<close>

lemma saveDataToSheets_written:
  "fst (saveDataToSheets e f data sh) \<Longrightarrow>
     snd (saveDataToSheets e f data sh) = headers # map transactionToRow (transactions data)"
  by (auto simp add: saveDataToSheets_def getAuth_def values_clear_def values_update_header_def
      values_update_data_def Let_def split: if_splits sum.splits)

text \<open>
  C7. The transaction that the create builds has the \<open>nextId\<close> of the snapshot the
  handler has just loaded as its identifier and \<open>deleted = false\<close>, whatever the body
  holds (an \<open>id\<close> or a \<open>deleted\<close> of the body is overwritten); it is appended to the
  transactions of the snapshot, and the snapshot's counter becomes \<open>nextId + 1\<close>. With a
  successful save the answer is 201 with this transaction, otherwise 500.
\<close>

theorem create_assigns_nextId:
  "(let data = loaded rq sh;
        t = fst (createInMemory data body (now rq));
        data2 = snd (createInMemory data body (now rq));
        r = saveDataToSheets (config rq) (save_faults rq) data2 sh
    in field t ''id'' = JNum (nextId data)
     \<and> field t ''deleted'' = JBool False
     \<and> transactions data2 = transactions data @ [t]
     \<and> nextId data2 = js_add (nextId data) (Fin 1)
     \<and> post_transactions rq body sh =
         (if fst r
          then (Response 201 [(''message'', JStr ''Transaction added successfully''),
                              (''transaction'', JObj t)],
                headers # map transactionToRow (transactions data @ [t]))
          else (Response 500 [(''error'', JStr ''Failed to persist transaction'')], snd r)))"
proof -
  define data2 where "data2 = snd (createInMemory (loaded rq sh) body (now rq))"
  have w: "fst (saveDataToSheets (config rq) (save_faults rq) data2 sh) \<Longrightarrow>
      snd (saveDataToSheets (config rq) (save_faults rq) data2 sh) =
        headers # map transactionToRow (transactions data2)"
    by (rule saveDataToSheets_written)
  have t: "transactions data2 =
      transactions (loaded rq sh) @ [fst (createInMemory (loaded rq sh) body (now rq))]"
    by (simp add: data2_def createInMemory_def Let_def)
  have p: "post_transactions rq body sh =
      (if fst (saveDataToSheets (config rq) (save_faults rq) data2 sh)
       then (Response 201 [(''message'', JStr ''Transaction added successfully''),
                           (''transaction'', JObj (fst (createInMemory (loaded rq sh) body (now rq))))],
             snd (saveDataToSheets (config rq) (save_faults rq) data2 sh))
       else (Response 500 [(''error'', JStr ''Failed to persist transaction'')],
             snd (saveDataToSheets (config rq) (save_faults rq) data2 sh)))"
    by (simp add: post_transactions_def data2_def Let_def split_beta)
  have f: "field (fst (createInMemory (loaded rq sh) body (now rq))) ''id'' = JNum (nextId (loaded rq sh))"
    "field (fst (createInMemory (loaded rq sh) body (now rq))) ''deleted'' = JBool False"
    "nextId data2 = js_add (nextId (loaded rq sh)) (Fin 1)"
    by (simp_all add: data2_def createInMemory_def newTransaction_def Let_def field_defineProperties)
  from w t p f show ?thesis
    unfolding Let_def data2_def [symmetric] by auto
qed

theorem create_assigns_nextId_witness:
  "nextId (loaded exampleRequest lunchSheet) = Fin 6
   \<and> field (fst (createInMemory (loaded exampleRequest lunchSheet)
        [(''id'', JNum (Fin 99)), (''deleted'', JBool True), (''amount'', JNum (Fin 100))]
        (now exampleRequest))) ''id'' = JNum (Fin 6)
   \<and> field (fst (createInMemory (loaded exampleRequest lunchSheet)
        [(''id'', JNum (Fin 99)), (''deleted'', JBool True), (''amount'', JNum (Fin 100))]
        (now exampleRequest))) ''deleted'' = JBool False"
proof -
  have n: "nextId (loaded exampleRequest lunchSheet) = Fin 6"
    by code_simp
  from create_assigns_nextId [of exampleRequest lunchSheet
      "[(''id'', JNum (Fin 99)), (''deleted'', JBool True), (''amount'', JNum (Fin 100))]"] n
  show ?thesis
    by (simp add: Let_def)
qed

subsection \<open>Decoding the timestamps\<close>

lemma numTruthy_iff: "numTruthy x = (x \<noteq> NaN \<and> x \<noteq> Fin 0)"
  by (cases x) (simp_all add: numTruthy_def)

text \<open>
  C4, as amended. The integer timestamps are read with \<open>parseInt(cell) || Date.now()\<close>:
  the number that \<open>parseInt\<close> reads is kept when there is one and it is not 0, and the
  current epoch milliseconds are taken when the cell is absent, when no number can be read,
  and also when the number read is 0. The string timestamps are read with
  \<open>cell || new Date().toISOString()\<close>: a truthy cell is kept, and the current time is
  taken for every other cell, the absent one and the empty string among them.
\<close>

theorem decode_timestamps:
  "(parseInt_js (cell row 9) \<noteq> NaN \<and> parseInt_js (cell row 9) \<noteq> Fin 0 \<longrightarrow>
      field (rowToTransaction row i clk) ''createdTimestamp'' = JNum (parseInt_js (cell row 9)))
   \<and> (cell row 9 = JUndefined \<or> parseInt_js (cell row 9) = NaN \<or> parseInt_js (cell row 9) = Fin 0 \<longrightarrow>
      field (rowToTransaction row i clk) ''createdTimestamp'' = JNum (Date_now clk))
   \<and> (parseInt_js (cell row 10) \<noteq> NaN \<and> parseInt_js (cell row 10) \<noteq> Fin 0 \<longrightarrow>
      field (rowToTransaction row i clk) ''updatedTimestamp'' = JNum (parseInt_js (cell row 10)))
   \<and> (cell row 10 = JUndefined \<or> parseInt_js (cell row 10) = NaN \<or> parseInt_js (cell row 10) = Fin 0 \<longrightarrow>
      field (rowToTransaction row i clk) ''updatedTimestamp'' = JNum (Date_now clk))
   \<and> (truthy (cell row 7) \<longrightarrow> field (rowToTransaction row i clk) ''createdAt'' = cell row 7)
   \<and> (cell row 7 = JUndefined \<or> cell row 7 = JStr [] \<or> \<not> truthy (cell row 7) \<longrightarrow>
      field (rowToTransaction row i clk) ''createdAt'' = JStr (nowIso clk))
   \<and> (truthy (cell row 8) \<longrightarrow> field (rowToTransaction row i clk) ''updatedAt'' = cell row 8)
   \<and> (cell row 8 = JUndefined \<or> cell row 8 = JStr [] \<or> \<not> truthy (cell row 8) \<longrightarrow>
      field (rowToTransaction row i clk) ''updatedAt'' = JStr (nowIso clk))"
  by (auto simp add: rowToTransaction_def field_def Let_def num_or_def or_else_def numTruthy_iff)

theorem decode_timestamps_witness:
  "parseInt_js (cell lunchRow 9) = Fin 1704099600000
   \<and> field (rowToTransaction lunchRow 0 clockA) ''createdTimestamp'' = JNum (Fin 1704099600000)
   \<and> truthy (cell lunchRow 7)
   \<and> field (rowToTransaction lunchRow 0 clockA) ''createdAt'' = JStr ''2024-01-01T09:00:00.000Z''
   \<and> cell [JStr ''5''] 10 = JUndefined
   \<and> field (rowToTransaction [JStr ''5''] 0 clockA) ''updatedTimestamp'' = JNum (Fin 1709287200000)
   \<and> cell [JStr ''5''] 8 = JUndefined
   \<and> field (rowToTransaction [JStr ''5''] 0 clockA) ''updatedAt'' = JStr ''2024-03-01T10:00:00.000Z''"
proof -
  have p: "parseInt_js (cell lunchRow 9) = Fin 1704099600000" "truthy (cell lunchRow 7)"
    "cell lunchRow 7 = JStr ''2024-01-01T09:00:00.000Z''"
    by code_simp+
  have u: "cell [JStr ''5''] 10 = JUndefined" "cell [JStr ''5''] 8 = JUndefined"
    by code_simp+
  have c: "Date_now clockA = Fin 1709287200000" "nowIso clockA = ''2024-03-01T10:00:00.000Z''"
    by (simp_all add: Date_now_def clockA_def)
  from decode_timestamps [of lunchRow 0 clockA] p
  have 1: "field (rowToTransaction lunchRow 0 clockA) ''createdTimestamp'' = JNum (Fin 1704099600000)"
    "field (rowToTransaction lunchRow 0 clockA) ''createdAt'' = JStr ''2024-01-01T09:00:00.000Z''"
    by simp_all
  from decode_timestamps [of "[JStr ''5'']" 0 clockA] u c
  have 2: "field (rowToTransaction [JStr ''5''] 0 clockA) ''updatedTimestamp'' = JNum (Fin 1709287200000)"
    "field (rowToTransaction [JStr ''5''] 0 clockA) ''updatedAt'' = JStr ''2024-03-01T10:00:00.000Z''"
    by simp_all
  from p u 1 2 show ?thesis by simp
qed

text \<open>
  The claim as stated fails on a row whose \<open>createdTimestamp\<close> cell is the string 0 and
  whose \<open>createdAt\<close> cell is the empty string: the cell 0 is present and parses as the
  integer 0, and the empty string is present, yet both fields get the current time.
\<close>

theorem decode_timestamps_counterexample:
  "cell staleRow 9 = JStr ''0''
   \<and> parseInt_js (cell staleRow 9) = Fin 0
   \<and> field (rowToTransaction staleRow 0 clockA) ''createdTimestamp'' = JNum (Fin 1709287200000)
   \<and> cell staleRow 7 = JStr []
   \<and> field (rowToTransaction staleRow 0 clockA) ''createdAt'' = JStr ''2024-03-01T10:00:00.000Z''"
  by code_simp

subsection \<open>Encoding a decoded row\<close>

lemma parseInt_number_plain:
  assumes "plainInteger x"
  shows "parseInt_number x = x"
proof -
  from assms obtain q where x: "x = Fin q" and int: "of_int \<lfloor>q\<rfloor> = q" and small: "\<bar>q\<bar> < 10 ^ 21"
    by (cases x) (simp_all add: plainInteger_def)
  show ?thesis
  proof (cases "q = 0")
    case True
    then show ?thesis by (simp add: x parseInt_number_def)
  next
    case False
    from int obtain n :: int where n: "q = of_int n" by metis
    from False n have "n \<noteq> 0" by auto
    then have "1 \<le> \<bar>n\<bar>" by simp
    then have "(1::rat) \<le> \<bar>of_int n\<bar>"
      by (metis of_int_1_le_iff of_int_abs)
    then have "(1 / 1000000 :: rat) \<le> \<bar>q\<bar>" by (simp add: n)
    with small have plain: "plainNotation \<bar>q\<bar>" by (simp add: plainNotation_def)
    have "\<lfloor>\<bar>q\<bar>\<rfloor> = \<bar>n\<bar>"
      by (simp add: n flip: of_int_abs)
    then have "sgn q * of_int \<lfloor>\<bar>q\<bar>\<rfloor> = sgn q * \<bar>q\<bar>"
      by (simp add: n)
    then have "sgn q * of_int \<lfloor>\<bar>q\<bar>\<rfloor> = q"
      by (simp add: mult_sgn_abs)
    with False plain show ?thesis by (simp add: x parseInt_number_def)
  qed
qed

lemma typedRow_roundtrip:
  assumes "typedRow row"
  shows "transactionToRow (rowToTransaction row i clk) = row"
proof -
  from assms obtain c0 c1 c2 c3 c4 c5 c6 c7 c8 c9 c10
    where row: "row = [c0, c1, c2, c3, c4, c5, c6, c7, c8, c9, c10]"
    by (auto simp add: typedRow_def length_Suc_conv numeral_eq_Suc)
  from assms row obtain x where c0: "c0 = JNum x" "plainInteger x"
    by (cases c0) (simp_all add: typedRow_def idCell_def)
  from assms row obtain a where c5: "c5 = JNum a" "a \<noteq> NaN"
    by (cases c5) (simp_all add: typedRow_def amountCell_def)
  from assms row obtain b where c6: "c6 = JBool b"
    by (cases c6) (simp_all add: typedRow_def flagCell_def)
  from assms row obtain y where c9: "c9 = JNum y" "plainInteger y" "y \<noteq> Fin 0"
    by (cases c9) (simp_all add: typedRow_def stampCell_def)
  from assms row obtain z where c10: "c10 = JNum z" "plainInteger z" "z \<noteq> Fin 0"
    by (cases c10) (simp_all add: typedRow_def stampCell_def)
  from assms row have texts: "or_else c1 (JStr []) = c1" "or_else c2 (JStr []) = c2"
    "or_else c3 (JStr []) = c3" "or_else c4 (JStr []) = c4"
    by (auto simp add: typedRow_def textCell_def or_else_def)
  from assms row have stamps: "or_else c7 (JStr (nowIso clk)) = c7"
    "or_else c8 (JStr (nowIso clk)) = c8"
    by (auto simp add: typedRow_def or_else_def)
  from c0 have x: "parseInt_number x = x" "x \<noteq> NaN"
    by (auto simp add: parseInt_number_plain plainInteger_def)
  from c9 have y: "num_or (parseInt_number y) (Date_now clk) = y"
    by (auto simp add: parseInt_number_plain num_or_def numTruthy_iff plainInteger_def)
  from c10 have z: "num_or (parseInt_number z) (Date_now clk) = z"
    by (auto simp add: parseInt_number_plain num_or_def numTruthy_iff plainInteger_def)
  from c5 have a: "num_or a (Fin 0) = a"
    by (auto simp add: num_or_def numTruthy_iff)
  show ?thesis
    by (simp add: row transactionToRow_def rowToTransaction_def field_def Let_def cell_def
        c0 c5 c6 c9 c10 texts stamps x y z a)
qed

subsection \<open>Identifiers of decoded rows\<close>

lemma sgn_times_int: "\<exists>n::int. sgn (q::rat) * of_int m = of_int n"
proof -
  have "sgn q * of_int m = of_int ((if q < 0 then - 1 else if q = 0 then 0 else 1) * m)"
    by (simp add: sgn_if)
  then show ?thesis ..
qed

lemma integerOrInfinite_int: "integerOrInfinite (Fin (of_int n))"
  by (simp add: integerOrInfinite_def)

lemma integerOrInfinite_roundToDouble: "integerOrInfinite (roundToDouble (of_int n))"
  using roundToDouble_int_cases [of n] by (auto simp add: integerOrInfinite_def)

lemma NaN_or_rounded_if:
  "(if c then NaN else roundToDouble (of_int k)) = NaN
   \<or> integerOrInfinite (if c then NaN else roundToDouble (of_int k))"
  by (simp add: integerOrInfinite_roundToDouble)

lemma parseInt_string_int:
  "parseInt_string s = NaN \<or> integerOrInfinite (parseInt_string s)"
  unfolding parseInt_string_def Let_def split_beta by (rule NaN_or_rounded_if)

lemma parseInt_number_int:
  "parseInt_number x = NaN \<or> integerOrInfinite (parseInt_number x)"
proof (cases x)
  case (Fin q)
  from sgn_times_int [of q "\<lfloor>\<bar>q\<bar>\<rfloor>"] obtain a :: int
    where a: "sgn q * of_int \<lfloor>\<bar>q\<bar>\<rfloor> = of_int a" ..
  from sgn_times_int [of q "significantDigit \<bar>q\<bar>"] obtain b :: int
    where b: "sgn q * of_int (significantDigit \<bar>q\<bar>) = of_int b" ..
  have "parseInt_number x = Fin (of_int 0) \<or> parseInt_number x = Fin (of_int a)
      \<or> parseInt_number x = Fin (of_int b)"
    by (simp add: Fin parseInt_number_def a b)
  then show ?thesis
    using integerOrInfinite_int by metis
qed (simp_all add: parseInt_number_def)

lemma parseInt_js_int: "parseInt_js v = NaN \<or> integerOrInfinite (parseInt_js v)"
  by (induction v rule: parseInt_js.induct)
    (simp_all add: parseInt_string_int parseInt_number_int)

lemma decoded_id_int:
  "\<exists>x. field (rowToTransaction row i clk) ''id'' = JNum x \<and> integerOrInfinite x"
proof -
  have i: "integerOrInfinite (Fin (of_nat i + 1))"
    using integerOrInfinite_int [of "int i + 1"] by simp
  from parseInt_js_int [of "cell row 0"] i show ?thesis
    by (auto simp add: field_rowToTransaction_id)
qed

lemma decodeRows_ids:
  "map (\<lambda>t. field t ''id'') (decodeRows rows clk) =
     map JNum (map (\<lambda>t. ToNumber (field t ''id'')) (decodeRows rows clk))
   \<and> list_all integerOrInfinite (map (\<lambda>t. ToNumber (field t ''id'')) (decodeRows rows clk))"
proof -
  have "field t ''id'' = JNum (ToNumber (field t ''id'')) \<and> integerOrInfinite (ToNumber (field t ''id''))"
    if "t \<in> set (decodeRows rows clk)" for t
  proof -
    from that obtain row i where "t = rowToTransaction row i clk"
      using decodeRows_decoded by blast
    with decoded_id_int [of row i clk] show ?thesis by auto
  qed
  then show ?thesis
    by (simp add: list_all_iff)
qed

subsection \<open>The largest identifier\<close>

lemma num_less_trans:
  "\<not> num_less b a \<Longrightarrow> \<not> num_less c b \<Longrightarrow> a \<noteq> NaN \<Longrightarrow> b \<noteq> NaN \<Longrightarrow> c \<noteq> NaN \<Longrightarrow> \<not> num_less c a"
  by (cases a; cases b; cases c) simp_all

lemma num_less_irrefl: "\<not> num_less a a"
  by (cases a) simp_all

lemma max2_cases:
  assumes "a \<noteq> NaN" "b \<noteq> NaN"
  shows "(max2 a b = a \<or> max2 a b = b) \<and> \<not> num_less (max2 a b) a \<and> \<not> num_less (max2 a b) b"
  using assms by (cases a; cases b) (simp_all add: max2_def)

lemma foldl_max2:
  assumes "a \<noteq> NaN" "\<forall>x \<in> set xs. x \<noteq> NaN"
  shows "foldl max2 a xs \<in> set (a # xs) \<and> (\<forall>x \<in> set (a # xs). \<not> num_less (foldl max2 a xs) x)"
  using assms
proof (induction xs arbitrary: a)
  case Nil
  show ?case by (simp add: num_less_irrefl)
next
  case (Cons y ys)
  from Cons.prems have y: "y \<noteq> NaN" and ys: "\<forall>x \<in> set ys. x \<noteq> NaN"
    by simp_all
  from max2_cases [OF Cons.prems(1) y]
  have m: "max2 a y = a \<or> max2 a y = y" "\<not> num_less (max2 a y) a" "\<not> num_less (max2 a y) y"
    by simp_all
  from m(1) Cons.prems(1) y have mn: "max2 a y \<noteq> NaN" by auto
  define r where "r = foldl max2 (max2 a y) ys"
  from Cons.IH [OF mn ys]
  have mem: "r \<in> set (max2 a y # ys)" and ub: "\<forall>x \<in> set (max2 a y # ys). \<not> num_less r x"
    by (simp_all add: r_def)
  from mem mn ys have rn: "r \<noteq> NaN" by auto
  from ub have top: "\<not> num_less r (max2 a y)" by simp
  from m(2) top Cons.prems(1) mn rn have ra: "\<not> num_less r a"
    by (rule num_less_trans)
  from m(3) top y mn rn have ry: "\<not> num_less r y"
    by (rule num_less_trans)
  from mem m(1) have "r \<in> set (a # y # ys)" by auto
  moreover from ub ra ry have "\<forall>x \<in> set (a # y # ys). \<not> num_less r x" by simp
  ultimately show ?case by (simp add: r_def)
qed

lemma Math_max_with_0:
  assumes "\<forall>x \<in> set xs. x \<noteq> NaN"
  shows "Math_max (xs @ [Fin 0]) \<in> set (xs @ [Fin 0])
     \<and> (\<forall>x \<in> set (xs @ [Fin 0]). \<not> num_less (Math_max (xs @ [Fin 0])) x)"
proof -
  from assms have n: "\<forall>x \<in> set (xs @ [Fin 0]). x \<noteq> NaN" by simp
  have "NegInf \<noteq> NaN" by simp
  from foldl_max2 [OF this n]
  have mem: "Math_max (xs @ [Fin 0]) \<in> set (NegInf # xs @ [Fin 0])"
    and ub: "\<forall>x \<in> set (NegInf # xs @ [Fin 0]). \<not> num_less (Math_max (xs @ [Fin 0])) x"
    by (simp_all add: Math_max_def)
  from ub have "\<not> num_less (Math_max (xs @ [Fin 0])) (Fin 0)" by simp
  then have "Math_max (xs @ [Fin 0]) \<noteq> NegInf"
    by (cases "Math_max (xs @ [Fin 0])") simp_all
  with mem ub show ?thesis by auto
qed

lemma integerOrInfinite_not_NaN: "integerOrInfinite x \<Longrightarrow> x \<noteq> NaN"
  by (auto simp add: integerOrInfinite_def)

text \<open>One more than a largest value that is an integer from 0 to \<open>2^53 - 1\<close>.\<close>

lemma js_add_1_exact:
  assumes "integerOrInfinite (Fin m)" "\<not> num_less (Fin m) (Fin 0)" "m < 2 ^ 53"
  shows "js_add (Fin m) (Fin 1) = Fin (m + 1)"
proof -
  from assms(1) have "of_int \<lfloor>m\<rfloor> = m"
    by (simp add: integerOrInfinite_def)
  then obtain n :: int where n: "m = of_int n"
    by metis
  from assms(2) n have "0 \<le> n" by simp
  moreover from assms(3) n have "(of_int n :: rat) < of_int (2 ^ 53)" by simp
  then have "n < 2 ^ 53" by (simp only: of_int_less_iff)
  ultimately have "0 < n + 1" "n + 1 \<le> 2 ^ 53" by simp_all
  then have "roundToDouble (of_int (n + 1)) = Fin (of_int (n + 1))"
    by (rule roundToDouble_exact)
  then show ?thesis by (simp add: n)
qed

lemma less_next:
  assumes "\<not> num_less (Fin m) x" "x \<noteq> NaN"
  shows "num_less x (Fin (m + 1))"
  using assms by (cases x) simp_all

subsection \<open>The next identifier\<close>

text \<open>
  C2, as amended. A load completes when the configuration is there, no remote call fails
  and the decoded transactions are fewer than the arguments that a call can take: the
  identifiers and 0 are the arguments of \<open>Math.max\<close>. Then the transactions of the
  snapshot are the decoded ones that are not soft-deleted; the identifiers of all the
  decoded transactions are numbers, each an integer or an infinity; \<open>top\<close>, the result of
  \<open>Math.max\<close>, is 0 or one of the identifiers and no identifier is above it; and
  \<open>nextId\<close> is the double nearest to \<open>top + 1\<close>. When \<open>top\<close> is below \<open>2^53\<close>,
  \<open>nextId\<close> is \<open>top + 1\<close> exactly and is strictly greater than every identifier, the
  soft-deleted ones included. Without data rows \<open>nextId\<close> is 1. A load that does not
  complete returns no transactions and the \<open>nextId\<close> 1, whatever the sheet holds.
\<close>

theorem nextId_above_all_ids:
  "(let ts = decodeRows (drop 1 sh) clk;
        ids = map (\<lambda>t. ToNumber (field t ''id'')) ts;
        top = Math_max (ids @ [Fin 0]);
        data = loadDataFromSheets e f clk sh
    in (validateCredentials e \<and> \<not> auth_fails f \<and> \<not> get_fails f
          \<and> int (length (drop 1 sh)) < max_arguments f \<longrightarrow>
          transactions data = filter (\<lambda>t. \<not> truthy (field t ''deleted'')) ts
        \<and> map (\<lambda>t. field t ''id'') ts = map JNum ids
        \<and> list_all integerOrInfinite ids
        \<and> top \<in> set (ids @ [Fin 0])
        \<and> (\<forall>x \<in> set ids. \<not> num_less top x)
        \<and> nextId data = js_add top (Fin 1)
        \<and> (\<forall>m. top = Fin m \<and> m < 2 ^ 53 \<longrightarrow>
              nextId data = Fin (m + 1) \<and> (\<forall>x \<in> set ids. num_less x (nextId data)))
        \<and> (drop 1 sh = [] \<longrightarrow> nextId data = Fin 1))
     \<and> (\<not> (validateCredentials e \<and> \<not> auth_fails f \<and> \<not> get_fails f
             \<and> int (length (drop 1 sh)) < max_arguments f) \<longrightarrow>
          transactions data = [] \<and> nextId data = Fin 1))"
proof -
  define ts where "ts = decodeRows (drop 1 sh) clk"
  define ids where "ids = map (\<lambda>t. ToNumber (field t ''id'')) ts"
  define top where "top = Math_max (ids @ [Fin 0])"
  define data where "data = loadDataFromSheets e f clk sh"
  from decodeRows_ids [of "drop 1 sh" clk]
  have num: "map (\<lambda>t. field t ''id'') ts = map JNum ids" and whole: "list_all integerOrInfinite ids"
    by (simp_all add: ts_def ids_def)
  from whole have nn: "\<forall>x \<in> set ids. x \<noteq> NaN"
    by (auto simp add: list_all_iff integerOrInfinite_not_NaN)
  from Math_max_with_0 [OF nn]
  have mem: "top \<in> set (ids @ [Fin 0])"
    and ub: "\<forall>x \<in> set (ids @ [Fin 0]). \<not> num_less top x"
    by (simp_all add: top_def)
  from ub have ub_ids: "\<forall>x \<in> set ids. \<not> num_less top x" and ub0: "\<not> num_less top (Fin 0)"
    by simp_all
  from mem whole have top_whole: "integerOrInfinite top"
    by (auto simp add: list_all_iff integerOrInfinite_def)
  have ok: "transactions data = filter (\<lambda>t. \<not> truthy (field t ''deleted'')) ts
      \<and> nextId data = js_add top (Fin 1)"
    if "validateCredentials e \<and> \<not> auth_fails f \<and> \<not> get_fails f
          \<and> int (length (drop 1 sh)) < max_arguments f"
    using that by (simp add: data_def load_success ts_def ids_def top_def)
  have exact: "nextId data = Fin (m + 1) \<and> (\<forall>x \<in> set ids. num_less x (nextId data))"
    if c: "validateCredentials e \<and> \<not> auth_fails f \<and> \<not> get_fails f
          \<and> int (length (drop 1 sh)) < max_arguments f"
      and m: "top = Fin m \<and> m < 2 ^ 53" for m
  proof -
    from top_whole ub0 m have "js_add (Fin m) (Fin 1) = Fin (m + 1)"
      by (intro js_add_1_exact) simp_all
    with ok [OF c] m have n: "nextId data = Fin (m + 1)" by simp
    have "num_less x (Fin (m + 1))" if "x \<in> set ids" for x
      using that ub_ids nn m by (intro less_next) auto
    with n show ?thesis by simp
  qed
  have empty: "nextId data = Fin 1" if "drop 1 sh = []"
  proof (cases "validateCredentials e \<and> \<not> auth_fails f \<and> \<not> get_fails f
          \<and> int (length (drop 1 sh)) < max_arguments f")
    case True
    from that have "top = Fin 0"
      by (simp add: top_def ids_def ts_def decodeRows_def Math_max_def max2_def)
    moreover have "js_add (Fin 0) (Fin 1) = Fin 1"
      using roundToDouble_exact [of 1] by simp
    ultimately show ?thesis using ok [OF True] by simp
  next
    case False
    then have "data = defaultData clk"
      unfolding data_def by (rule load_failure)
    then show ?thesis by (simp add: defaultData_def)
  qed
  have failed: "transactions data = [] \<and> nextId data = Fin 1"
    if "\<not> (validateCredentials e \<and> \<not> auth_fails f \<and> \<not> get_fails f
             \<and> int (length (drop 1 sh)) < max_arguments f)"
  proof -
    from that have "data = defaultData clk"
      unfolding data_def by (rule load_failure)
    then show ?thesis by (simp add: defaultData_def)
  qed
  from num whole mem ub_ids ok exact empty failed show ?thesis
    unfolding Let_def ts_def [symmetric] ids_def [symmetric] top_def [symmetric] data_def [symmetric]
    by blast
qed

theorem nextId_above_all_ids_witness:
  "validateCredentials exampleEnv \<and> \<not> auth_fails noFaults \<and> \<not> get_fails noFaults
   \<and> int (length (drop 1 lunchSheet)) < max_arguments noFaults
   \<and> Math_max (map (\<lambda>t. ToNumber (field t ''id'')) (decodeRows (drop 1 lunchSheet) clockA) @ [Fin 0]) = Fin 5
   \<and> nextId (loadDataFromSheets exampleEnv noFaults clockA lunchSheet) = Fin 6
   \<and> list_all (\<lambda>x. num_less x (nextId (loadDataFromSheets exampleEnv noFaults clockA lunchSheet)))
       (map (\<lambda>t. ToNumber (field t ''id'')) (decodeRows (drop 1 lunchSheet) clockA))"
proof -
  have ok: "validateCredentials exampleEnv \<and> \<not> auth_fails noFaults \<and> \<not> get_fails noFaults
      \<and> int (length (drop 1 lunchSheet)) < max_arguments noFaults"
    by (simp add: validateCredentials_def exampleEnv_def unset_def noFaults_def lunchSheet_def)
  have top: "Math_max (map (\<lambda>t. ToNumber (field t ''id'')) (decodeRows (drop 1 lunchSheet) clockA) @ [Fin 0]) = Fin 5"
    by code_simp
  have small: "(5::rat) < 2 ^ 53"
    by simp
  from nextId_above_all_ids [of lunchSheet clockA exampleEnv noFaults] ok top small
  have n: "nextId (loadDataFromSheets exampleEnv noFaults clockA lunchSheet) = Fin (5 + 1)"
    and a: "\<forall>x \<in> set (map (\<lambda>t. ToNumber (field t ''id'')) (decodeRows (drop 1 lunchSheet) clockA)).
            num_less x (nextId (loadDataFromSheets exampleEnv noFaults clockA lunchSheet))"
    unfolding Let_def by blast+
  from n have n6: "nextId (loadDataFromSheets exampleEnv noFaults clockA lunchSheet) = Fin 6"
    by simp
  from a have "list_all (\<lambda>x. num_less x (nextId (loadDataFromSheets exampleEnv noFaults clockA lunchSheet)))
          (map (\<lambda>t. ToNumber (field t ''id'')) (decodeRows (drop 1 lunchSheet) clockA))"
    by (simp only: list_all_iff)
  with ok top n6 show ?thesis by (simp only: simp_thms)
qed

text \<open>
  The claim as stated fails in three ways. When every identifier is negative, \<open>nextId\<close>
  is not one plus the largest identifier, because \<open>Math.max\<close> is taken with 0: the only
  row of \<open>debtSheet\<close> has the identifier -5, and \<open>nextId\<close> is 1 and not -4. \<open>nextId\<close>
  is not above every identifier when the largest one is \<open>2^53\<close> or more, because the sum
  is rounded to a double: the only row of \<open>largeSheet\<close> has the identifier
  9007199254740992, and \<open>nextId\<close> is 9007199254740992 as well. And when the rows are as
  many as the arguments that a call can take, the call of \<open>Math.max\<close> throws and the
  load returns the default structure: the rows of \<open>longSheet\<close> have the identifier 7,
  and \<open>nextId\<close> is 1.
\<close>

theorem nextId_not_above_counterexample:
  "length (decodeRows (drop 1 debtSheet) clockA) = 1
   \<and> field (decodeRows (drop 1 debtSheet) clockA ! 0) ''id'' = JNum (Fin (- 5))
   \<and> nextId (loadDataFromSheets exampleEnv noFaults clockA debtSheet) = Fin 1
   \<and> js_add (Fin (- 5)) (Fin 1) = Fin (- 4)
   \<and> nextId (loadDataFromSheets exampleEnv noFaults clockA debtSheet) \<noteq> js_add (Fin (- 5)) (Fin 1)
   \<and> length (decodeRows (drop 1 largeSheet) clockA) = 1
   \<and> field (decodeRows (drop 1 largeSheet) clockA ! 0) ''id'' = JNum (Fin 9007199254740992)
   \<and> nextId (loadDataFromSheets exampleEnv noFaults clockA largeSheet) = Fin 9007199254740992
   \<and> \<not> num_less (Fin 9007199254740992) (nextId (loadDataFromSheets exampleEnv noFaults clockA largeSheet))
   \<and> int (length (drop 1 longSheet)) = 120000
   \<and> max_arguments noFaults = 120000
   \<and> field (decodeRows (drop 1 longSheet) clockA ! 0) ''id'' = JNum (Fin 7)
   \<and> nextId (loadDataFromSheets exampleEnv noFaults clockA longSheet) = Fin 1
   \<and> \<not> num_less (Fin 7) (nextId (loadDataFromSheets exampleEnv noFaults clockA longSheet))"
proof -
  have small: "length (decodeRows (drop 1 debtSheet) clockA) = 1
   \<and> field (decodeRows (drop 1 debtSheet) clockA ! 0) ''id'' = JNum (Fin (- 5))
   \<and> nextId (loadDataFromSheets exampleEnv noFaults clockA debtSheet) = Fin 1
   \<and> js_add (Fin (- 5)) (Fin 1) = Fin (- 4)
   \<and> nextId (loadDataFromSheets exampleEnv noFaults clockA debtSheet) \<noteq> js_add (Fin (- 5)) (Fin 1)
   \<and> length (decodeRows (drop 1 largeSheet) clockA) = 1
   \<and> field (decodeRows (drop 1 largeSheet) clockA ! 0) ''id'' = JNum (Fin 9007199254740992)
   \<and> nextId (loadDataFromSheets exampleEnv noFaults clockA largeSheet) = Fin 9007199254740992
   \<and> \<not> num_less (Fin 9007199254740992) (nextId (loadDataFromSheets exampleEnv noFaults clockA largeSheet))"
    by code_simp
  have limit: "max_arguments noFaults = 120000"
    by (simp add: noFaults_def)
  have seven: "field (rowToTransaction [JStr ''7''] 0 clockA) ''id'' = JNum (Fin 7)"
    by code_simp
  have "\<not> int (length (drop 1 longSheet)) < max_arguments noFaults"
    by (simp only: longSheet_rows limit)
  then have "\<not> (validateCredentials exampleEnv \<and> \<not> auth_fails noFaults \<and> \<not> get_fails noFaults
      \<and> int (length (drop 1 longSheet)) < max_arguments noFaults)"
    by blast
  then have "loadDataFromSheets exampleEnv noFaults clockA longSheet = defaultData clockA"
    by (rule load_failure)
  then have next1: "nextId (loadDataFromSheets exampleEnv noFaults clockA longSheet) = Fin 1"
    by (simp add: defaultData_def)
  then have below: "\<not> num_less (Fin 7) (nextId (loadDataFromSheets exampleEnv noFaults clockA longSheet))"
    by simp
  from seven have d7: "field (decodeRows (drop 1 longSheet) clockA ! 0) ''id'' = JNum (Fin 7)"
    by (simp only: longSheet_rows(2))
  from small limit d7 next1 below longSheet_rows(1) show ?thesis
    by blast
qed

subsection \<open>Loading what a soft delete wrote\<close>

lemma cell_transactionToRow:
  "cell (transactionToRow t) 0 = JNum (ToNumber (field t ''id''))"
  "cell (transactionToRow t) 6 = field t ''deleted''"
  by (simp_all add: transactionToRow_def cell_def Let_def)

lemma reload_id:
  assumes "idCell (field t ''id'')"
  shows "field (rowToTransaction (transactionToRow t) j clk) ''id'' = field t ''id''"
proof -
  from assms obtain x where x: "field t ''id'' = JNum x" "plainInteger x"
    by (cases "field t ''id''") (simp_all add: idCell_def)
  from x(2) have "parseInt_number x = x" "x \<noteq> NaN"
    by (auto simp add: parseInt_number_plain plainInteger_def)
  then show ?thesis
    by (simp add: field_rowToTransaction_id cell_transactionToRow x)
qed

lemma reload_deleted:
  "field (rowToTransaction (transactionToRow t) j clk) ''deleted'' =
     JBool (field t ''deleted'' = JStr ''TRUE'' \<or> field t ''deleted'' = JBool True)"
  by (simp add: rowToTransaction_def field_def [of "_ # _"] Let_def cell_transactionToRow)

lemma field_deleteInMemory:
  "field (deleteInMemory t c) ''id'' = field t ''id''"
  "field (deleteInMemory t c) ''deleted'' = JBool True"
  by (simp_all add: deleteInMemory_def field_Object_assign)

lemma delete_success:
  assumes "fst (delete_transaction rq param sh) = Response 200 payload"
  shows "\<exists>k. findIndex (idMatches param) (transactions (loaded rq sh)) = Some k
     \<and> snd (delete_transaction rq param sh) =
         headers # map transactionToRow
           ((transactions (loaded rq sh))[k := deleteInMemory (transactions (loaded rq sh) ! k) (now rq)])"
proof (cases "findIndex (idMatches param) (transactions (loaded rq sh))")
  case None
  with assms show ?thesis by (simp add: delete_transaction_def Let_def)
next
  case (Some k)
  define data2 where "data2 = (loaded rq sh)\<lparr>transactions :=
      (transactions (loaded rq sh))[k := deleteInMemory (transactions (loaded rq sh) ! k) (now rq)],
      lastUpdated := nowIso (now rq)\<rparr>"
  from assms Some have saved: "fst (saveDataToSheets (config rq) (save_faults rq) data2 sh)"
    by (simp add: delete_transaction_def Let_def split_beta data2_def split: if_splits)
  then have "snd (saveDataToSheets (config rq) (save_faults rq) data2 sh) =
      headers # map transactionToRow (transactions data2)"
    by (rule saveDataToSheets_written)
  moreover have "snd (delete_transaction rq param sh) =
      snd (saveDataToSheets (config rq) (save_faults rq) data2 sh)"
    using Some by (simp add: delete_transaction_def Let_def split_beta data2_def)
  ultimately show ?thesis
    using Some by (simp add: data2_def)
qed

lemma filter_single:
  assumes "length (filter P xs) = 1" "j < length xs" "k < length xs" "P (xs ! j)" "P (xs ! k)"
  shows "j = k"
proof (rule ccontr)
  assume "j \<noteq> k"
  have two: "2 \<le> length (filter P xs)" if "a < b" "b < length xs" "P (xs ! a)" "P (xs ! b)" for a b
  proof -
    from that have a: "a < length xs" by simp
    then have split: "take a xs @ xs ! a # drop (Suc a) xs = xs"
      by (simp add: id_take_nth_drop [symmetric])
    have "length (filter P (take a xs @ xs ! a # drop (Suc a) xs)) =
        length (filter P (take a xs)) + (1 + length (filter P (drop (Suc a) xs)))"
      using that(3) by simp
    then have len: "length (filter P xs) =
        length (filter P (take a xs)) + (1 + length (filter P (drop (Suc a) xs)))"
      by (simp only: split)
    from that have "b - Suc a < length (drop (Suc a) xs)" "drop (Suc a) xs ! (b - Suc a) = xs ! b"
      by simp_all
    then have "xs ! b \<in> set (drop (Suc a) xs)"
      by (metis nth_mem)
    with that(4) have "filter P (drop (Suc a) xs) \<noteq> []"
      by (simp add: filter_empty_conv) blast
    then have "1 \<le> length (filter P (drop (Suc a) xs))"
      by (cases "filter P (drop (Suc a) xs)") simp_all
    with len show ?thesis by arith
  qed
  from \<open>j \<noteq> k\<close> consider "j < k" | "k < j" by arith
  then have "2 \<le> length (filter P xs)"
    using two assms by cases auto
  with assms(1) show False by simp
qed


lemma idMatches_field:
  "field u ''id'' = field t ''id'' \<Longrightarrow> idMatches param u = idMatches param t"
  by (simp add: idMatches_def)

text \<open>
  C9, as amended. After a successful soft delete of the identifier \<open>X\<close>, when exactly one
  transaction of the snapshot that the handler loaded has this identifier and the
  identifiers of the snapshot are integers printed in plain notation (below \<open>10^21\<close> in
  magnitude), every load of the sheet as the delete left it, whatever its configuration,
  failures and clock, returns no transaction with the identifier \<open>X\<close>: the row is written
  back with \<open>deleted\<close> set and the filter of the load leaves it out.
\<close>

theorem deleted_hidden_after_reload:
  assumes ok: "fst (delete_transaction rq param sh) = Response 200 payload"
    and one: "length (filter (idMatches param) (transactions (loaded rq sh))) = 1"
    and plain: "\<forall>t \<in> set (transactions (loaded rq sh)). idCell (field t ''id'')"
  shows "\<forall>u \<in> set (transactions (loadDataFromSheets e f clk (snd (delete_transaction rq param sh)))).
           \<not> idMatches param u"
proof
  fix u
  assume u: "u \<in> set (transactions (loadDataFromSheets e f clk (snd (delete_transaction rq param sh))))"
  define ts where "ts = transactions (loaded rq sh)"
  from delete_success [OF ok] obtain k
    where k: "findIndex (idMatches param) ts = Some k"
      and sh': "snd (delete_transaction rq param sh) =
        headers # map transactionToRow (ts[k := deleteInMemory (ts ! k) (now rq)])"
    unfolding ts_def by blast
  define ts' where "ts' = ts[k := deleteInMemory (ts ! k) (now rq)]"
  from findIndex_Some [OF k] have kk: "k < length ts" "idMatches param (ts ! k)"
    by simp_all
  from loaded_visible [OF u]
  have dec: "u \<in> set (decodeRows (map transactionToRow ts') clk)"
    and vis: "\<not> truthy (field u ''deleted'')"
    by (simp_all add: sh' ts'_def)
  from dec obtain j where j: "j < length ts'" "u = rowToTransaction (transactionToRow (ts' ! j)) j clk"
    by (auto simp add: in_set_conv_nth length_decodeRows decodeRows_nth)
  show "\<not> idMatches param u"
  proof (cases "j = k")
    case True
    with kk have "ts' ! j = deleteInMemory (ts ! k) (now rq)"
      by (simp add: ts'_def)
    then have "field u ''deleted'' = JBool True"
      by (simp add: j(2) reload_deleted field_deleteInMemory)
    with vis show ?thesis by simp
  next
    case False
    with j have same: "ts' ! j = ts ! j" and jl: "j < length ts"
      by (simp_all add: ts'_def)
    then have "ts ! j \<in> set ts" by simp
    with plain have "idCell (field (ts ! j) ''id'')"
      by (simp add: ts_def)
    then have "field u ''id'' = field (ts ! j) ''id''"
      by (simp add: j(2) same reload_id)
    then have eq: "idMatches param u = idMatches param (ts ! j)"
      by (rule idMatches_field)
    show ?thesis
    proof
      assume "idMatches param u"
      with eq have "idMatches param (ts ! j)" by simp
      with one jl kk have "j = k"
        unfolding ts_def [symmetric] by (intro filter_single [of "idMatches param" ts j k]) simp_all
      with False show False ..
    qed
  qed
qed


theorem deleted_hidden_after_reload_witness:
  "fst (delete_transaction exampleRequest ''6'' pairSheet) =
     Response 200 [(''message'', JStr ''Transaction marked as deleted''),
       (''transaction'',
        JObj (Object_assign dinner
          [(''deleted'', JBool True), (''updatedAt'', JStr ''2024-03-01T10:00:01.000Z''),
           (''updatedTimestamp'', JNum (Fin 1709287201000))]))]
   \<and> length (filter (idMatches ''6'') (transactions (loaded exampleRequest pairSheet))) = 1
   \<and> list_all (\<lambda>t. idCell (field t ''id'')) (transactions (loaded exampleRequest pairSheet))
   \<and> length (transactions (loadDataFromSheets exampleEnv noFaults clockA
        (snd (delete_transaction exampleRequest ''6'' pairSheet)))) = 1
   \<and> list_all (\<lambda>u. \<not> idMatches ''6'' u)
       (transactions (loadDataFromSheets exampleEnv noFaults clockA
          (snd (delete_transaction exampleRequest ''6'' pairSheet))))"
proof -
  have ok: "fst (delete_transaction exampleRequest ''6'' pairSheet) =
     Response 200 [(''message'', JStr ''Transaction marked as deleted''),
       (''transaction'',
        JObj (Object_assign dinner
          [(''deleted'', JBool True), (''updatedAt'', JStr ''2024-03-01T10:00:01.000Z''),
           (''updatedTimestamp'', JNum (Fin 1709287201000))]))]"
    by code_simp
  have one: "length (filter (idMatches ''6'') (transactions (loaded exampleRequest pairSheet))) = 1"
    by code_simp
  have plain: "list_all (\<lambda>t. idCell (field t ''id'')) (transactions (loaded exampleRequest pairSheet))"
    by code_simp
  have len: "length (transactions (loadDataFromSheets exampleEnv noFaults clockA
        (snd (delete_transaction exampleRequest ''6'' pairSheet)))) = 1"
    by code_simp
  from plain have plain': "\<forall>t \<in> set (transactions (loaded exampleRequest pairSheet)). idCell (field t ''id'')"
    by (simp only: list_all_iff)
  from deleted_hidden_after_reload [OF ok one plain', of exampleEnv noFaults clockA]
  have "list_all (\<lambda>u. \<not> idMatches ''6'' u)
       (transactions (loadDataFromSheets exampleEnv noFaults clockA
          (snd (delete_transaction exampleRequest ''6'' pairSheet))))"
    by (simp only: list_all_iff)
  with ok one plain len show ?thesis by (simp only: simp_thms)
qed

text \<open>
  The claim as stated fails in three ways. First, when two visible transactions have the
  identifier, \<open>find\<close> returns the first one only: from the sheet with the rows 5 and 6,
  the update of 5 with the body \<open>{"id": 6}\<close> leaves two rows 6; the soft delete of 6
  answers 200 and marks the first; the next load still returns a transaction with the
  identifier 6. Second, a later load is not bound by the delete: after the soft delete of 6,
  the next update writes the sheet without the soft-deleted row, the next create is given
  the identifier 6 again, and the load after it returns a transaction with the identifier
  6. Third, an identifier of \<open>10^21\<close> or more is written as a number that prints as
  \<open>7.1e+22\<close>, which \<open>parseInt\<close> reads as 7: after the soft delete of 7, the other row
  comes back with the identifier 7.
\<close>

theorem deleted_id_visible_again_counterexample:
  "snd (put_transaction exampleRequest ''5'' [(''id'', JNum (Fin 6))] pairSheet) = mergedSheet
   \<and> delete_transaction exampleRequest ''6'' mergedSheet =
       (Response 200 [(''message'', JStr ''Transaction marked as deleted''),
                      (''transaction'', JObj deletedLunch)], twinSheet)
   \<and> transactions (loadDataFromSheets exampleEnv noFaults clockA twinSheet) = [dinner]
   \<and> idMatches ''6'' dinner
   \<and> delete_transaction exampleRequest ''6'' pairSheet =
       (Response 200 [(''message'', JStr ''Transaction marked as deleted''),
                      (''transaction'', JObj deletedDinner)], deletedSheet)
   \<and> snd (put_transaction exampleRequest ''5'' [(''amount'', JNum (Fin 20))] deletedSheet) = purgedSheet
   \<and> snd (post_transactions exampleRequest feeBody purgedSheet) = reusedSheet
   \<and> length (transactions (loadDataFromSheets exampleEnv noFaults clockA reusedSheet)) = 2
   \<and> idMatches ''6'' (transactions (loadDataFromSheets exampleEnv noFaults clockA reusedSheet) ! 1)
   \<and> length (filter (idMatches ''7'') (transactions (loaded exampleRequest hugeSheet))) = 1
   \<and> snd (delete_transaction exampleRequest ''7'' hugeSheet) = hugeSheetAfter
   \<and> length (transactions (loadDataFromSheets exampleEnv noFaults clockA hugeSheetAfter)) = 1
   \<and> idMatches ''7'' (transactions (loadDataFromSheets exampleEnv noFaults clockA hugeSheetAfter) ! 0)"
  by code_simp

subsection \<open>Soft-deleted rows and the mutations\<close>






subsection \<open>The rows that encoding a decoded row gives back\<close>

lemma leadingDigit_range: "0 \<le> n \<Longrightarrow> 0 \<le> leadingDigit n \<and> leadingDigit n < 10"
proof (induction n rule: leadingDigit.induct)
  case (1 n)
  show ?case
  proof (cases "n < 10")
    case True
    with "1.prems" show ?thesis by simp
  next
    case False
    with "1.prems" have "0 \<le> n div 10" by simp
    with "1.IH" False have "0 \<le> leadingDigit (n div 10) \<and> leadingDigit (n div 10) < 10"
      by simp
    with False show ?thesis by (subst (1 2) leadingDigit.simps) simp
  qed
qed

lemma significantDigit_range:
  assumes "0 \<le> a"
  shows "0 \<le> significantDigit a \<and> significantDigit a < 10"
proof -
  define d where "d = leadingDigit \<lfloor>scale10 a (- decimalExponent a)\<rfloor>"
  from assms have "0 \<le> scale10 a (- decimalExponent a)"
    by (simp add: scale10_def)
  then have "0 \<le> \<lfloor>scale10 a (- decimalExponent a)\<rfloor>"
    by simp
  then have d: "0 \<le> d \<and> d < 10"
    unfolding d_def by (rule leadingDigit_range)
  then have "0 \<le> d + 1" by simp
  then have "0 \<le> leadingDigit (d + 1) \<and> leadingDigit (d + 1) < 10"
    by (rule leadingDigit_range)
  with d show ?thesis
    by (simp add: significantDigit_def Let_def d_def)
qed

lemma parseInt_number_fixed:
  assumes "parseInt_number (Fin q) = Fin q"
  shows "plainInteger (Fin q)"
proof (cases "q = 0")
  case True
  then show ?thesis by (simp add: plainInteger_def)
next
  case q: False
  show ?thesis
  proof (cases "plainNotation \<bar>q\<bar>")
    case True
    with assms q have "sgn q * of_int \<lfloor>\<bar>q\<bar>\<rfloor> = q"
      by (simp add: parseInt_number_def)
    moreover from sgn_times_int [of q "\<lfloor>\<bar>q\<bar>\<rfloor>"] obtain n :: int
      where "sgn q * of_int \<lfloor>\<bar>q\<bar>\<rfloor> = of_int n" ..
    ultimately have "q = of_int n" by simp
    then have "of_int \<lfloor>q\<rfloor> = q"
      by simp
    with True show ?thesis
      by (simp add: plainInteger_def plainNotation_def)
  next
    case False
    with assms q have eq: "sgn q * of_int (significantDigit \<bar>q\<bar>) = q"
      by (simp add: parseInt_number_def)
    define d where "d = significantDigit \<bar>q\<bar>"
    have d: "0 \<le> d" "d < 10"
      using significantDigit_range [of "\<bar>q\<bar>"] by (simp_all add: d_def)
    from eq have "\<bar>q\<bar> = \<bar>sgn q * of_int d\<bar>"
      by (simp add: d_def)
    also have "\<dots> = of_int d"
      using q d by (simp add: abs_mult abs_sgn_eq)
    finally have a: "\<bar>q\<bar> = of_int d" .
    with q have "d \<noteq> 0" by auto
    with d have "1 \<le> d" "d \<le> 9" by simp_all
    then have "(1::rat) \<le> of_int d" "(of_int d :: rat) \<le> 9"
      by simp_all
    with a have "plainNotation \<bar>q\<bar>"
      by (simp add: plainNotation_def)
    with False show ?thesis ..
  qed
qed

lemma parseInt_number_not_NaN: "parseInt_number (Fin q) \<noteq> NaN"
  by (simp add: parseInt_number_def)

lemma id_fixed:
  assumes "x = (if parseInt_number x = NaN then Fin k else parseInt_number x)"
  shows "plainInteger x"
proof (cases x)
  case (Fin q)
  with assms have "parseInt_number (Fin q) = Fin q"
    using parseInt_number_not_NaN [of q] by simp
  then show ?thesis
    unfolding Fin by (rule parseInt_number_fixed)
qed (use assms in \<open>simp_all add: parseInt_number_def\<close>)

lemma stamp_fixed:
  assumes "y = num_or (parseInt_number y) (Fin 1)"
  shows "plainInteger y \<and> y \<noteq> Fin 0"
proof (cases "numTruthy (parseInt_number y)")
  case True
  with assms have fixed: "y = parseInt_number y" by (simp add: num_or_def)
  with True have nz: "y \<noteq> NaN" "y \<noteq> Fin 0"
    by (auto simp add: numTruthy_iff)
  from fixed nz obtain q where q: "y = Fin q"
    by (cases y) (simp_all add: parseInt_number_def)
  with fixed have "parseInt_number (Fin q) = Fin q" by simp
  then have "plainInteger (Fin q)" by (rule parseInt_number_fixed)
  with q nz show ?thesis by simp
next
  case False
  with assms have "y = Fin 1" by (simp add: num_or_def)
  moreover have "parseInt_number (Fin 1) = Fin 1"
    by (simp add: parseInt_number_def plainNotation_def)
  ultimately have "numTruthy (parseInt_number y)"
    by (simp add: numTruthy_def)
  with False show ?thesis ..
qed


lemma encode_decode_cells:
  "transactionToRow (rowToTransaction row i clk) =
     [JNum (if cell row 0 = JUndefined \<or> cell row 0 = JNull \<or> cell row 0 = JStr [] then Fin (of_nat i + 1)
            else if parseInt_js (cell row 0) = NaN then Fin (of_nat i + 1)
            else parseInt_js (cell row 0)),
      or_else (cell row 1) (JStr []),
      or_else (cell row 2) (JStr []),
      or_else (cell row 3) (JStr []),
      or_else (cell row 4) (JStr []),
      JNum (num_or (parseFloat_js (cell row 5)) (Fin 0)),
      JBool (cell row 6 = JStr ''TRUE'' \<or> cell row 6 = JBool True),
      or_else (cell row 7) (JStr (nowIso clk)),
      or_else (cell row 8) (JStr (nowIso clk)),
      JNum (num_or (parseInt_js (cell row 9)) (Date_now clk)),
      JNum (num_or (parseInt_js (cell row 10)) (Date_now clk))]"
  by (simp add: transactionToRow_def rowToTransaction_def field_def Let_def)

text \<open>
  C3, as amended. Encoding the decoded row gives the row back, cell by cell, at every
  position and every clock reading, exactly when the row has the typed form that
  \<open>transactionToRow\<close> writes: eleven cells, an integer number in plain notation for the
  identifier, text cells that are the empty string or truthy, a number other than \<open>NaN\<close>
  for the amount, a boolean for the flag, truthy \<open>createdAt\<close> and \<open>updatedAt\<close>, and
  non-zero integer numbers in plain notation for the two timestamps.
\<close>

theorem roundtrip_iff_typed:
  "(\<forall>i clk. transactionToRow (rowToTransaction row i clk) = row) = typedRow row"
proof
  assume "typedRow row"
  then show "\<forall>i clk. transactionToRow (rowToTransaction row i clk) = row"
    by (simp add: typedRow_roundtrip)
next
  assume all: "\<forall>i clk. transactionToRow (rowToTransaction row i clk) = row"
  define clk where "clk = \<lparr>nowIso = ''now'', nowMs = 1\<rparr>"
  have now: "Date_now clk = Fin 1" "nowIso clk = ''now''"
    by (simp_all add: Date_now_def clk_def)
  from all have "transactionToRow (rowToTransaction row 0 clk) = row"
    by blast
  then obtain v0 v1 v2 v3 v4 v5 v6 v7 v8 v9 v10
    where row: "row = [v0, v1, v2, v3, v4, v5, v6, v7, v8, v9, v10]"
      and e0: "v0 = JNum (if cell row 0 = JUndefined \<or> cell row 0 = JNull \<or> cell row 0 = JStr [] then Fin 1
            else if parseInt_js (cell row 0) = NaN then Fin 1 else parseInt_js (cell row 0))"
      and e1: "v1 = or_else (cell row 1) (JStr [])" "v2 = or_else (cell row 2) (JStr [])"
        "v3 = or_else (cell row 3) (JStr [])" "v4 = or_else (cell row 4) (JStr [])"
      and e5: "v5 = JNum (num_or (parseFloat_js (cell row 5)) (Fin 0))"
      and e6: "v6 = JBool (cell row 6 = JStr ''TRUE'' \<or> cell row 6 = JBool True)"
      and e7: "v7 = or_else (cell row 7) (JStr ''now'')" "v8 = or_else (cell row 8) (JStr ''now'')"
      and e9: "v9 = JNum (num_or (parseInt_js (cell row 9)) (Fin 1))"
        "v10 = JNum (num_or (parseInt_js (cell row 10)) (Fin 1))"
    unfolding encode_decode_cells now by (metis semiring_1_class.of_nat_0 add_0)
  have c: "cell row 0 = v0" "cell row 1 = v1" "cell row 2 = v2" "cell row 3 = v3"
    "cell row 4 = v4" "cell row 5 = v5" "cell row 6 = v6" "cell row 7 = v7" "cell row 8 = v8"
    "cell row 9 = v9" "cell row 10 = v10"
    by (simp_all add: row cell_def)
  from e0 obtain x where x: "v0 = JNum x" by blast
  then have p: "parseInt_js v0 = parseInt_number x"
    and nn: "v0 \<noteq> JUndefined" "v0 \<noteq> JNull" "v0 \<noteq> JStr []"
    by simp_all
  from e0 nn have "v0 = JNum (if parseInt_number x = NaN then Fin 1 else parseInt_number x)"
    unfolding c p by simp
  with x have "JNum x = JNum (if parseInt_number x = NaN then Fin 1 else parseInt_number x)"
    by (simp only:)
  then have "x = (if parseInt_number x = NaN then Fin 1 else parseInt_number x)"
    by (simp only: jsval.inject)
  then have "plainInteger x" by (rule id_fixed)
  with x have i0: "idCell v0" by (simp add: idCell_def)
  from e1 have t: "textCell v1" "textCell v2" "textCell v3" "textCell v4"
    unfolding c by (auto simp add: textCell_def or_else_def split: if_splits)
  from e5 obtain a where a: "v5 = JNum a" by blast
  then have "parseFloat_js v5 = a" by simp
  with e5 have "v5 = JNum (num_or a (Fin 0))"
    unfolding c by (simp only:)
  with a have "JNum a = JNum (num_or a (Fin 0))"
    by (simp only:)
  then have "a = num_or a (Fin 0)"
    by (simp only: jsval.inject)
  then have "a \<noteq> NaN" by (auto simp add: num_or_def numTruthy_def)
  with a have i5: "amountCell v5" by (simp add: amountCell_def)
  from e6 have i6: "flagCell v6" by (simp add: flagCell_def)
  from e7 have i7: "truthy v7" "truthy v8"
    unfolding c by (auto simp add: or_else_def split: if_splits)
  from e9 obtain y where y: "v9 = JNum y" by blast
  then have "parseInt_js v9 = parseInt_number y" by simp
  with e9 have "v9 = JNum (num_or (parseInt_number y) (Fin 1))"
    unfolding c by (simp only:)
  with y have "JNum y = JNum (num_or (parseInt_number y) (Fin 1))"
    by (simp only:)
  then have "y = num_or (parseInt_number y) (Fin 1)"
    by (simp only: jsval.inject)
  then have "plainInteger y \<and> y \<noteq> Fin 0" by (rule stamp_fixed)
  with y have i9: "stampCell v9" by (simp add: stampCell_def)
  from e9 obtain z where z: "v10 = JNum z" by blast
  then have "parseInt_js v10 = parseInt_number z" by simp
  with e9 have "v10 = JNum (num_or (parseInt_number z) (Fin 1))"
    unfolding c by (simp only:)
  with z have "JNum z = JNum (num_or (parseInt_number z) (Fin 1))"
    by (simp only:)
  then have "z = num_or (parseInt_number z) (Fin 1)"
    by (simp only: jsval.inject)
  then have "plainInteger z \<and> z \<noteq> Fin 0" by (rule stamp_fixed)
  with z have i10: "stampCell v10" by (simp add: stampCell_def)
  from i0 t i5 i6 i7 i9 i10 show "typedRow row"
    by (simp add: typedRow_def row)
qed


theorem roundtrip_iff_typed_witness:
  "typedRow typedLunchRow
   \<and> transactionToRow (rowToTransaction typedLunchRow 3 clockA) = typedLunchRow"
proof -
  have h: "typedRow typedLunchRow"
    by (simp add: typedRow_def typedLunchRow_def idCell_def textCell_def amountCell_def
        flagCell_def stampCell_def plainInteger_def)
  with roundtrip_iff_typed [of typedLunchRow]
  have "\<forall>i clk. transactionToRow (rowToTransaction typedLunchRow i clk) = typedLunchRow"
    by (simp only:)
  then have "transactionToRow (rowToTransaction typedLunchRow 3 clockA) = typedLunchRow"
    by blast
  with h show ?thesis by (simp only: simp_thms)
qed

text \<open>
  The claim as stated fails on the row of strings that the sheet returns: its identifier,
  amount, flag and timestamps come back as numbers and a boolean, and \<open>12.50\<close> comes back
  as the number 12.5.
\<close>

theorem string_row_roundtrip_counterexample:
  "transactionToRow (rowToTransaction lunchRow 0 clockA) = typedLunchRow
   \<and> typedLunchRow \<noteq> lunchRow
   \<and> cell lunchRow 5 = JStr ''12.50'' \<and> cell typedLunchRow 5 = JNum (Fin (25 / 2))
   \<and> cell lunchRow 6 = JStr ''FALSE'' \<and> cell typedLunchRow 6 = JBool False"
  by code_simp

end
